theory Spec2Isabelle
  imports Main "HOL-Library.Sublist"
begin

section \<open>Text\<close>

text \<open>
  A Python \<open>str\<close> is modelled as a \<open>string\<close>: one \<open>char\<close> per code point, for the
  code points below 256.  \<open>x in s\<close> is \<open>sublist x s\<close>, \<open>s.startswith(x)\<close> is
  \<open>prefix x s\<close> and \<open>s.endswith(x)\<close> is \<open>suffix x s\<close>.
\<close>

definition NL :: char where
  "NL = CHR 0x0A"

definition SQ :: char where
  "SQ = CHR 0x27"

definition DQ :: char where
  "DQ = CHR 0x22"

text \<open>\<open>str.isspace\<close> and the pattern \<open>\s\<close> agree on one code point: below 256 these are
  the twelve whitespace code points of CPython.\<close>

definition isspace :: "char \<Rightarrow> bool" where
  "isspace c = (List.member [9, 10, 11, 12, 13, 28, 29, 30, 31, 32, 133, 160] (of_char c :: nat))"

definition lstrip :: "string \<Rightarrow> string" where
  "lstrip s = dropWhile isspace s"

definition rstrip :: "string \<Rightarrow> string" where
  "rstrip s = rev (dropWhile isspace (rev s))"

definition strip :: "string \<Rightarrow> string" where
  "strip s = lstrip (rstrip s)"

text \<open>\<open>s.split('\n')\<close>: never empty, one more element than there are newlines.\<close>

fun split_nl :: "string \<Rightarrow> string list" where
  "split_nl [] = [[]]"
| "split_nl (c # cs) =
     (if c = NL then [] # split_nl cs
      else (case split_nl cs of [] \<Rightarrow> [[c]] | l # ls \<Rightarrow> (c # l) # ls))"

text \<open>\<open>'\n'.join(lines)\<close>.\<close>

fun join_nl :: "string list \<Rightarrow> string" where
  "join_nl [] = []"
| "join_nl [l] = l"
| "join_nl (l # ls) = l @ NL # join_nl ls"

text \<open>\<open>list.insert(i, x)\<close>: an index past the end appends.\<close>

definition insert_at :: "nat \<Rightarrow> 'a \<Rightarrow> 'a list \<Rightarrow> 'a list" where
  "insert_at i x xs = take i xs @ x # drop i xs"

text \<open>\<open>s.replace(old, new)\<close>: every occurrence of \<open>old\<close>, left to right, none overlapping
  another.  The counter of \<open>replace_scan\<close> is the number of characters of a replaced occurrence
  still to skip.\<close>

fun replace_scan :: "nat \<Rightarrow> string \<Rightarrow> string \<Rightarrow> string \<Rightarrow> string" where
  "replace_scan k old new [] = []"
| "replace_scan (Suc k) old new (c # cs) = replace_scan k old new cs"
| "replace_scan 0 old new (c # cs) =
     (if prefix old (c # cs) then new @ replace_scan (length old - 1) old new cs
      else c # replace_scan 0 old new cs)"

definition replace :: "string \<Rightarrow> string \<Rightarrow> string \<Rightarrow> string" where
  "replace s old new =
     (if old = [] then new @ concat (map (\<lambda>c. c # new) s) else replace_scan 0 old new s)"

text \<open>The number of bytes of the UTF-8 encoding: one byte below 128, two from there to 255.\<close>

definition utf8_len :: "string \<Rightarrow> nat" where
  "utf8_len s = sum_list (map (\<lambda>c. if (of_char c :: nat) < 128 then 1 else 2) s)"

section \<open>The working tree of a cloned repository\<close>

text \<open>
  A directory is the list of its entries in the order \<open>os.listdir\<close> and \<open>os.walk\<close> report
  them.  A file has the text that \<open>f.read()\<close> returns (\<open>None\<close>: the bytes are not UTF-8, so
  reading raises), its size in bytes as \<open>os.path.getsize\<close> reports it, and whether it can be
  opened for writing.  A repository is the listing of its root directory; a path is the list of
  names from the root.  The text is the text as Python's text mode gives it, line ends
  already translated to the newline character, and text that is written is read back as
  written.
\<close>

datatype entry =
    File (ename: string) (ftext: "string option") (fsize: nat) (writable: bool)
  | Dir (ename: string) (children: "entry list")

type_synonym path = "string list"

datatype error =
    FileNotFoundError
  | IsADirectoryError
  | PermissionError
  | UnicodeDecodeError
  | ExternalError string

definition is_file :: "entry \<Rightarrow> bool" where
  "is_file e = (case e of File _ _ _ _ \<Rightarrow> True | Dir _ _ \<Rightarrow> False)"

definition is_dir :: "entry \<Rightarrow> bool" where
  "is_dir e = (case e of File _ _ _ _ \<Rightarrow> False | Dir _ _ \<Rightarrow> True)"

definition find_entry :: "entry list \<Rightarrow> string \<Rightarrow> entry option" where
  "find_entry es n = find (\<lambda>e. ename e = n) es"

fun lookup :: "entry list \<Rightarrow> path \<Rightarrow> entry option" where
  "lookup es [] = None"
| "lookup es [n] = find_entry es n"
| "lookup es (n # p) =
     (case find_entry es n of Some (Dir _ cs) \<Rightarrow> lookup cs p | _ \<Rightarrow> None)"

text \<open>\<open>os.path.exists\<close>.\<close>

definition exists :: "entry list \<Rightarrow> path \<Rightarrow> bool" where
  "exists es p = (lookup es p \<noteq> None)"

fun replace_entry :: "entry list \<Rightarrow> string \<Rightarrow> entry \<Rightarrow> entry list" where
  "replace_entry [] n e' = []"
| "replace_entry (e # es) n e' =
     (if ename e = n then e' # es else e # replace_entry es n e')"

text \<open>Put an entry at a path: in place of the entry that is there, or as a new last entry of
  the directory that holds it.\<close>

fun store :: "entry list \<Rightarrow> path \<Rightarrow> entry \<Rightarrow> entry list" where
  "store es [] e' = es"
| "store es [n] e' =
     (case find_entry es n of None \<Rightarrow> es @ [e'] | Some _ \<Rightarrow> replace_entry es n e')"
| "store es (n # p) e' =
     (case find_entry es n of
        Some (Dir _ cs) \<Rightarrow> replace_entry es n (Dir n (store cs p e'))
      | _ \<Rightarrow> es)"

text \<open>\<open>with open(p, 'r', encoding='utf-8') as f: content = f.read()\<close>.\<close>

definition read_text :: "entry list \<Rightarrow> path \<Rightarrow> error + string" where
  "read_text es p =
     (case lookup es p of
        None \<Rightarrow> Inl FileNotFoundError
      | Some (Dir _ _) \<Rightarrow> Inl IsADirectoryError
      | Some (File _ None _ _) \<Rightarrow> Inl UnicodeDecodeError
      | Some (File _ (Some c) _ _) \<Rightarrow> Inr c)"

text \<open>The directory that would hold a new file exists.\<close>

definition parent_exists :: "entry list \<Rightarrow> path \<Rightarrow> bool" where
  "parent_exists es p =
     (case p of [] \<Rightarrow> False | [n] \<Rightarrow> True
      | _ \<Rightarrow> (case lookup es (butlast p) of Some (Dir _ _) \<Rightarrow> True | _ \<Rightarrow> False))"

text \<open>\<open>with open(p, 'w', encoding='utf-8') as f: f.write(s)\<close>: the file is created or
  truncated, then holds \<open>s\<close>.  Opening fails on a directory and on a file that is not
  writable, and leaves the tree as it was.\<close>

definition write_text :: "entry list \<Rightarrow> path \<Rightarrow> string \<Rightarrow> error + entry list" where
  "write_text es p s =
     (case lookup es p of
        Some (Dir _ _) \<Rightarrow> Inl IsADirectoryError
      | Some (File n c b w) \<Rightarrow>
          if w then Inr (store es p (File n (Some s) (utf8_len s) w)) else Inl PermissionError
      | None \<Rightarrow>
          if parent_exists es p then Inr (store es p (File (last p) (Some s) (utf8_len s) True))
          else Inl FileNotFoundError)"

text \<open>\<open>with open(p, 'a', encoding='utf-8') as f: f.write(s)\<close>: as \<open>'w'\<close>, but what the
  file holds is kept and \<open>s\<close> follows it.\<close>

definition append_text :: "entry list \<Rightarrow> path \<Rightarrow> string \<Rightarrow> error + entry list" where
  "append_text es p s =
     (case lookup es p of
        Some (Dir _ _) \<Rightarrow> Inl IsADirectoryError
      | Some (File n c b w) \<Rightarrow>
          if w then Inr (store es p (File n (map_option (\<lambda>c. c @ s) c) (b + utf8_len s) w))
          else Inl PermissionError
      | None \<Rightarrow>
          if parent_exists es p then Inr (store es p (File (last p) (Some s) (utf8_len s) True))
          else Inl FileNotFoundError)"

section \<open>Dependency Patcher\<close>

definition DEP :: string where
  "DEP = ''dbdemos-tracker''"

text \<open>\<open>add_to_requirements\<close>.\<close>

definition add_to_requirements :: "entry list \<Rightarrow> path \<Rightarrow> error + (entry list \<times> bool)" where
  "add_to_requirements es file_path =
     (case read_text es file_path of
        Inl e \<Rightarrow> Inl e
      | Inr content \<Rightarrow>
          if \<not> sublist DEP content then
            (case append_text es file_path (DEP @ [NL]) of
               Inl e \<Rightarrow> Inl e
             | Inr es' \<Rightarrow> Inr (es', True))
          else Inr (es, False))"

text \<open>The loop shared by \<open>add_to_pyproject\<close> and \<open>add_to_pipfile\<close>:
  \<^verbatim>\<open>for i, line in enumerate(lines):
      if line.strip() == header:
          lines.insert(i + 1, 'dbdemos-tracker = "*"')
          break\<close>\<close>

definition DEP_ENTRY :: string where
  "DEP_ENTRY = ''dbdemos-tracker = '' @ [DQ] @ ''*'' @ [DQ]"

fun insert_after_header :: "string \<Rightarrow> string list \<Rightarrow> string list" where
  "insert_after_header header [] = []"
| "insert_after_header header (line # lines) =
     (if strip line = header then line # DEP_ENTRY # lines
      else line # insert_after_header header lines)"

definition add_under_header :: "string \<Rightarrow> entry list \<Rightarrow> path \<Rightarrow> error + (entry list \<times> bool)" where
  "add_under_header header es file_path =
     (case read_text es file_path of
        Inl e \<Rightarrow> Inl e
      | Inr content \<Rightarrow>
          if \<not> sublist DEP content then
            if sublist header content then
              (case write_text es file_path (join_nl (insert_after_header header (split_nl content))) of
                 Inl e \<Rightarrow> Inl e
               | Inr es' \<Rightarrow> Inr (es', True))
            else Inr (es, False)
          else Inr (es, False))"

text \<open>\<open>add_to_pyproject\<close>.\<close>

definition add_to_pyproject :: "entry list \<Rightarrow> path \<Rightarrow> error + (entry list \<times> bool)" where
  "add_to_pyproject = add_under_header ''[tool.poetry.dependencies]''"

text \<open>\<open>add_to_pipfile\<close>.\<close>

definition add_to_pipfile :: "entry list \<Rightarrow> path \<Rightarrow> error + (entry list \<times> bool)" where
  "add_to_pipfile = add_under_header ''[packages]''"

text \<open>\<open>re.search(r'(install_requires\s*=\s*\[)(.*?)(\])', content, re.DOTALL)\<close>.  At one
  position the pattern matches in one way only: each \<open>\s*\<close> takes all the whitespace there is
  (the character after it is not whitespace) and the lazy \<open>.*?\<close> stops at the first \<open>]\<close>.
  \<open>match_install_requires\<close> gives the first two groups; the third is \<open>]\<close>.\<close>

definition match_install_requires :: "string \<Rightarrow> (string \<times> string) option" where
  "match_install_requires s =
     (if \<not> prefix ''install_requires'' s then None
      else let r1 = drop (length ''install_requires'') s;
               ws1 = takeWhile isspace r1; r2 = dropWhile isspace r1 in
        if \<not> prefix ''='' r2 then None
        else let r3 = drop 1 r2; ws2 = takeWhile isspace r3; r4 = dropWhile isspace r3 in
          if \<not> prefix ''['' r4 then None
          else let r5 = drop 1 r4 in
            if CHR '']'' \<notin> set r5 then None
            else Some (''install_requires'' @ ws1 @ ''='' @ ws2 @ ''['',
                       takeWhile (\<lambda>c. c \<noteq> CHR '']'') r5))"

fun search_install_requires :: "string \<Rightarrow> (string \<times> string) option" where
  "search_install_requires [] = match_install_requires []"
| "search_install_requires (c # cs) =
     (case match_install_requires (c # cs) of
        Some m \<Rightarrow> Some m
      | None \<Rightarrow> search_install_requires cs)"

text \<open>\<open>add_to_setup_py\<close>.\<close>

definition add_to_setup_py :: "entry list \<Rightarrow> path \<Rightarrow> error + (entry list \<times> bool)" where
  "add_to_setup_py es file_path =
     (case read_text es file_path of
        Inl e \<Rightarrow> Inl e
      | Inr content \<Rightarrow>
          if \<not> sublist DEP content then
            (case search_install_requires content of
               Some (before, deps) \<Rightarrow>
                 let after = '']'';
                     new_deps =
                       (if strip deps \<noteq> [] then deps @ '','' @ [NL] @ ''        '' @ [SQ] @ DEP @ [SQ]
                        else [NL] @ ''        '' @ [SQ] @ DEP @ [SQ] @ [NL] @ ''    '');
                     new_content = replace content (before @ deps @ after) (before @ new_deps @ after)
                 in (case write_text es file_path new_content of
                       Inl e \<Rightarrow> Inl e
                     | Inr es' \<Rightarrow> Inr (es', True))
             | None \<Rightarrow> Inr (es, False))
          else Inr (es, False))"

text \<open>\<open>add_dependency\<close>: the first of the four manifests that exists at the root is handed to
  its function; with none of them, \<open>requirements.txt\<close> is created.\<close>

definition dependency_targets ::
  "(string \<times> (entry list \<Rightarrow> path \<Rightarrow> error + (entry list \<times> bool))) list" where
  "dependency_targets =
     [(''requirements.txt'', add_to_requirements),
      (''pyproject.toml'', add_to_pyproject),
      (''setup.py'', add_to_setup_py),
      (''Pipfile'', add_to_pipfile)]"

fun add_dependency_loop ::
  "entry list \<Rightarrow> (string \<times> (entry list \<Rightarrow> path \<Rightarrow> error + (entry list \<times> bool))) list
     \<Rightarrow> error + (entry list \<times> bool)" where
  "add_dependency_loop es [] =
     (case write_text es [''requirements.txt''] (DEP @ [NL]) of
        Inl e \<Rightarrow> Inl e
      | Inr es' \<Rightarrow> Inr (es', True))"
| "add_dependency_loop es ((dep_file, add_func) # rest) =
     (if exists es [dep_file] then add_func es [dep_file]
      else add_dependency_loop es rest)"

definition add_dependency :: "entry list \<Rightarrow> error + (entry list \<times> bool)" where
  "add_dependency es = add_dependency_loop es dependency_targets"

section \<open>Detector\<close>

text \<open>\<open>check_dependency_files\<close>: a manifest that cannot be read is skipped.\<close>

definition dependency_files :: "string list" where
  "dependency_files =
     [''requirements.txt'', ''requirements-dev.txt'', ''setup.py'', ''pyproject.toml'',
      ''Pipfile'', ''poetry.lock'']"

fun check_dependency_loop :: "entry list \<Rightarrow> string list \<Rightarrow> bool" where
  "check_dependency_loop es [] = False"
| "check_dependency_loop es (dep_file # rest) =
     (if exists es [dep_file] then
        (case read_text es [dep_file] of
           Inr content \<Rightarrow> if sublist DEP content then True else check_dependency_loop es rest
         | Inl e \<Rightarrow> check_dependency_loop es rest)
      else check_dependency_loop es rest)"

definition check_dependency_files :: "entry list \<Rightarrow> bool" where
  "check_dependency_files es = check_dependency_loop es dependency_files"

text \<open>\<open>os.walk\<close> with the pruning both callers apply to it,
  \<^verbatim>\<open>dirs[:] = [d for d in dirs if not d.startswith('.')]\<close>:
  the files in the order the callers' loops meet them, each with its path.  A directory's own
  files come first, then its subdirectories that are not hidden, in listing order.\<close>

definition hidden :: "string \<Rightarrow> bool" where
  "hidden d = prefix ''.'' d"

fun walk :: "path \<Rightarrow> entry \<Rightarrow> (path \<times> entry) list" where
  "walk root (File n c b w) = []"
| "walk root (Dir n es) =
     map (\<lambda>e. (root @ [ename e], e)) (filter is_file es) @
     concat (map (\<lambda>d. walk (root @ [ename d]) d)
               (filter (\<lambda>d. \<not> hidden (ename d)) (filter is_dir es)))"

definition walk_repo :: "entry list \<Rightarrow> (path \<times> entry) list" where
  "walk_repo es = walk [] (Dir [] es)"

text \<open>\<open>re.search(r'from\s+dbdemos_tracker|import\s+dbdemos_tracker', content)\<close>.  At one
  position \<open>\s+\<close> takes all the whitespace there is, since the module name starts with a
  character that is not whitespace.\<close>

definition tracker_import_at :: "string \<Rightarrow> string \<Rightarrow> bool" where
  "tracker_import_at keyword s =
     (prefix keyword s \<and>
      (let r = drop (length keyword) s
       in takeWhile isspace r \<noteq> [] \<and> prefix ''dbdemos_tracker'' (dropWhile isspace r)))"

fun search_tracker_import :: "string \<Rightarrow> bool" where
  "search_tracker_import [] = False"
| "search_tracker_import (c # cs) =
     (if tracker_import_at ''from'' (c # cs) then True
      else if tracker_import_at ''import'' (c # cs) then True
      else search_tracker_import cs)"

text \<open>\<open>check_tracker_imports\<close>: a file that cannot be read is skipped.\<close>

fun check_imports_loop :: "(path \<times> entry) list \<Rightarrow> bool" where
  "check_imports_loop [] = False"
| "check_imports_loop ((file_path, e) # rest) =
     (if suffix ''.py'' (ename e) then
        (case ftext e of
           Some content \<Rightarrow>
             if search_tracker_import content then True else check_imports_loop rest
         | None \<Rightarrow> check_imports_loop rest)
      else check_imports_loop rest)"

definition check_tracker_imports :: "entry list \<Rightarrow> bool" where
  "check_tracker_imports es = check_imports_loop (walk_repo es)"

text \<open>\<open>check_tracker_exists\<close>.\<close>

definition check_tracker_exists :: "entry list \<Rightarrow> bool" where
  "check_tracker_exists es =
     (if check_dependency_files es then True
      else if check_tracker_imports es then True
      else False)"

section \<open>Initialization Patcher\<close>

definition IMPORT_LINE :: string where
  "IMPORT_LINE = ''import dbdemos_tracker''"

definition INIT_CALL :: string where
  "INIT_CALL = ''dbdemos_tracker.initialize()''"

definition TAB :: char where
  "TAB = CHR 0x09"

text \<open>The first loop: \<open>import_line_idx\<close> ends one past the last line that starts, once
  stripped, with \<open>import\<close> or \<open>from\<close> and a space.\<close>

definition import_like :: "string \<Rightarrow> bool" where
  "import_like line = (prefix ''import '' (strip line) \<or> prefix ''from '' (strip line))"

fun import_line_idx :: "nat \<Rightarrow> nat \<Rightarrow> string list \<Rightarrow> nat" where
  "import_line_idx i idx [] = idx"
| "import_line_idx i idx (line # lines) =
     import_line_idx (i + 1) (if import_like line then i + 1 else idx) lines"

text \<open>The index of the first element a \<open>for ... if ...: ...; break\<close> loop stops at.\<close>

fun first_index :: "('a \<Rightarrow> bool) \<Rightarrow> 'a list \<Rightarrow> nat option" where
  "first_index P [] = None"
| "first_index P (x # xs) = (if P x then Some 0 else map_option Suc (first_index P xs))"

definition mentions_main :: "string \<Rightarrow> bool" where
  "mentions_main line = (sublist ''__name__'' line \<and> sublist ''__main__'' line)"

text \<open>The \<open>while\<close> loop under the main guard, on the lines from index \<open>j\<close> on: the index
  where the call is inserted, if it is.\<close>

fun main_block_scan :: "nat \<Rightarrow> string list \<Rightarrow> nat option" where
  "main_block_scan j [] = None"
| "main_block_scan j (l # ls) =
     (if strip l = [] \<or> prefix '' '' l \<or> prefix [TAB] l then
        (if strip l \<noteq> [] \<and> \<not> prefix ''#'' (strip l) then Some j
         else main_block_scan (j + 1) ls)
      else None)"

definition init_in_main_block :: "string list \<Rightarrow> string list option" where
  "init_in_main_block lines =
     (case first_index mentions_main lines of
        None \<Rightarrow> None
      | Some i \<Rightarrow>
          (case main_block_scan (i + 1) (drop (i + 1) lines) of
             None \<Rightarrow> None
           | Some j \<Rightarrow> Some (insert_at j (''    '' @ INIT_CALL) lines)))"

text \<open>\<open>re.match(r'def\s+main\s*\(', s)\<close>.\<close>

definition match_def_main :: "string \<Rightarrow> bool" where
  "match_def_main s =
     (prefix ''def'' s \<and>
      (let r = drop (length ''def'') s
       in takeWhile isspace r \<noteq> [] \<and>
          (let r2 = dropWhile isspace r
           in prefix ''main'' r2 \<and> prefix ''('' (dropWhile isspace (drop (length ''main'') r2)))))"

fun skip_blank_comment :: "nat \<Rightarrow> string list \<Rightarrow> nat" where
  "skip_blank_comment j [] = j"
| "skip_blank_comment j (l # ls) =
     (if strip l = [] \<or> prefix ''#'' (strip l) then skip_blank_comment (j + 1) ls else j)"

definition init_in_main_function :: "string list \<Rightarrow> string list option" where
  "init_in_main_function lines =
     (case first_index (\<lambda>line. match_def_main (strip line)) lines of
        None \<Rightarrow> None
      | Some i \<Rightarrow>
          let j = skip_blank_comment (i + 1) (drop (i + 1) lines)
          in if j < length lines then
               let indent = length (lines ! j) - length (lstrip (lines ! j))
               in Some (insert_at j (replicate indent CHR '' '' @ INIT_CALL) lines)
             else None)"

text \<open>The lines written back for the lines read, once the guard on the import has passed.\<close>

definition patch_lines :: "string list \<Rightarrow> string list" where
  "patch_lines lines0 =
     (let lines = insert_at (import_line_idx 0 0 lines0) IMPORT_LINE lines0
      in case init_in_main_block lines of
           Some patched \<Rightarrow> patched
         | None \<Rightarrow>
             (case init_in_main_function lines of
                Some patched \<Rightarrow> patched
              | None \<Rightarrow> lines @ ['''', ''# Initialize dbdemos tracker'', INIT_CALL]))"

text \<open>The body of the \<open>try\<close> of \<open>add_tracker_init_to_file\<close>.\<close>

definition add_tracker_init_try :: "entry list \<Rightarrow> path \<Rightarrow> error + (entry list \<times> bool)" where
  "add_tracker_init_try es file_path =
     (case read_text es file_path of
        Inl e \<Rightarrow> Inl e
      | Inr content \<Rightarrow>
          if sublist ''import dbdemos_tracker'' content \<or> sublist ''from dbdemos_tracker'' content
          then Inr (es, False)
          else
            (case write_text es file_path (join_nl (patch_lines (split_nl content))) of
               Inl e \<Rightarrow> Inl e
             | Inr es' \<Rightarrow> Inr (es', True)))"

text \<open>\<open>add_tracker_init_to_file\<close>: \<open>except Exception\<close> turns every error of the body into
  the result \<open>False\<close>.\<close>

definition add_tracker_init_to_file :: "entry list \<Rightarrow> path \<Rightarrow> entry list \<times> bool" where
  "add_tracker_init_to_file es file_path =
     (case add_tracker_init_try es file_path of
        Inl e \<Rightarrow> (es, False)
      | Inr r \<Rightarrow> r)"

definition entry_points :: "string list" where
  "entry_points = [''main.py'', ''app.py'', ''__main__.py'', ''run.py'']"

text \<open>\<^verbatim>\<open>[f for f in os.listdir(repo_path) if f.endswith('.py') and not f.startswith('setup')]\<close>\<close>

definition root_python_files :: "entry list \<Rightarrow> string list" where
  "root_python_files es = filter (\<lambda>f. suffix ''.py'' f \<and> \<not> prefix ''setup'' f) (map ename es)"

fun first_existing :: "entry list \<Rightarrow> string list \<Rightarrow> string option" where
  "first_existing es [] = None"
| "first_existing es (entry_file # rest) =
     (if exists es [entry_file] then Some entry_file else first_existing es rest)"

text \<open>The search for the largest Python file, with \<open>largest_file\<close> and \<open>largest_size\<close>.\<close>

fun largest_python_file :: "(path \<times> entry) list \<Rightarrow> path option \<Rightarrow> nat \<Rightarrow> path option" where
  "largest_python_file [] largest_file largest_size = largest_file"
| "largest_python_file ((file_path, e) # rest) largest_file largest_size =
     (if suffix ''.py'' (ename e) \<and> fsize e > largest_size
      then largest_python_file rest (Some file_path) (fsize e)
      else largest_python_file rest largest_file largest_size)"

definition MAIN_GUARD :: string where
  "MAIN_GUARD = ''if __name__ == '' @ [DQ] @ ''__main__'' @ [DQ] @ '':''"

definition MAIN_PY :: string where
  "MAIN_PY = join_nl
     [[DQ, DQ, DQ] @ ''Main entry point with dbdemos tracker initialization.'' @ [DQ, DQ, DQ],
      [],
      ''import dbdemos_tracker'',
      [],
      ''def main():'',
      ''    '' @ [DQ, DQ, DQ] @ ''Main function.'' @ [DQ, DQ, DQ],
      ''    dbdemos_tracker.initialize()'',
      ''    print('' @ [DQ] @ ''Application started with dbdemos tracker'' @ [DQ] @ '')'',
      [],
      MAIN_GUARD,
      ''    main()'',
      []]"

text \<open>\<open>add_initialization\<close>.\<close>

definition add_initialization :: "entry list \<Rightarrow> error + (entry list \<times> bool)" where
  "add_initialization es =
     (case first_existing es (entry_points @ root_python_files es) of
        Some entry_file \<Rightarrow> Inr (add_tracker_init_to_file es [entry_file])
      | None \<Rightarrow>
          (case largest_python_file (walk_repo es) None 0 of
             Some largest_file \<Rightarrow> Inr (add_tracker_init_to_file es largest_file)
           | None \<Rightarrow>
               (case write_text es [''main.py''] MAIN_PY of
                  Inl e \<Rightarrow> Inl e
                | Inr es' \<Rightarrow> Inr (es', True))))"

text \<open>\<open>add_tracker_to_repo\<close>.\<close>

definition add_tracker_to_repo :: "entry list \<Rightarrow> error + (entry list \<times> bool)" where
  "add_tracker_to_repo es =
     (case add_dependency es of
        Inl e \<Rightarrow> Inl e
      | Inr (es1, dependency_changed) \<Rightarrow>
          (case add_initialization es1 of
             Inl e \<Rightarrow> Inl e
           | Inr (es2, initialization_changed) \<Rightarrow>
               Inr (es2, dependency_changed \<or> initialization_changed)))"

section \<open>Orchestrator\<close>

text \<open>
  Cloning, branching, committing, pushing and opening the pull request are the work of git and
  of the hosting service: each is a parameter, a function on the state \<open>'w\<close> of that outside
  world that returns a result or the exception it raised.  A run carries that state, the log
  records written by \<open>process_repositories\<close> and \<open>process_single_repository\<close> (one
  constructor for each of their messages, with the values the message is formatted from), and
  the methods that \<open>process_repositories\<close> and \<open>process_single_repository\<close> called, in
  order.  \<open>add_dependency\<close> and \<open>add_initialization\<close> are called by \<open>add_tracker_to_repo\<close>
  and by nothing else.  An \<open>error\<close> is an instance of \<open>Exception\<close>.  Creating the temporary
  directory, opening the clone as a repository and removing the directory are part of
  \<open>clone_repository\<close> here or are taken to succeed.
\<close>

record 'w collaborators =
  clone_repository :: "string \<Rightarrow> 'w \<Rightarrow> (error + entry list) \<times> 'w"
  create_feature_branch :: "string \<Rightarrow> 'w \<Rightarrow> (error + unit) \<times> 'w"
  commit_changes :: "entry list \<Rightarrow> string \<Rightarrow> 'w \<Rightarrow> (error + unit) \<times> 'w"
  push_branch :: "string \<Rightarrow> 'w \<Rightarrow> (error + unit) \<times> 'w"
  create_pull_request :: "string \<Rightarrow> string \<Rightarrow> 'w \<Rightarrow> (error + unit) \<times> 'w"

datatype log_record =
    Processing_repository string
  | Failed_to_process string error
  | Tracker_already_exists string
  | No_changes_needed string
  | Successfully_processed string
  | Error_processing string error

datatype call =
    Call_process_single_repository string
  | Call_clone_repository string
  | Call_check_tracker_exists
  | Call_create_feature_branch string
  | Call_add_tracker_to_repo
  | Call_commit_changes
  | Call_push_branch string
  | Call_create_pull_request string string

record 'w run =
  world :: 'w
  records :: "log_record list"
  calls :: "call list"

definition write_log :: "log_record \<Rightarrow> 'w run \<Rightarrow> 'w run" where
  "write_log l r = r\<lparr>records := records r @ [l]\<rparr>"

text \<open>Call a collaborator: the call is noted, the world is what the collaborator leaves.\<close>

definition invoke :: "call \<Rightarrow> ('w \<Rightarrow> (error + 'a) \<times> 'w) \<Rightarrow> 'w run \<Rightarrow> (error + 'a) \<times> 'w run" where
  "invoke c f r =
     (case f (world r) of (res, w) \<Rightarrow> (res, r\<lparr>world := w, calls := calls r @ [c]\<rparr>))"

text \<open>Call a method that works on the cloned tree alone.\<close>

definition invoke_local :: "call \<Rightarrow> 'a \<Rightarrow> 'w run \<Rightarrow> 'a \<times> 'w run" where
  "invoke_local c res r = (res, r\<lparr>calls := calls r @ [c]\<rparr>)"

text \<open>One statement after another: an exception ends the sequence.\<close>

definition and_then ::
  "('w run \<Rightarrow> (error + 'a) \<times> 'w run) \<Rightarrow> ('a \<Rightarrow> 'w run \<Rightarrow> (error + 'b) \<times> 'w run)
     \<Rightarrow> 'w run \<Rightarrow> (error + 'b) \<times> 'w run" where
  "and_then m f r = (case m r of (Inl e, r') \<Rightarrow> (Inl e, r') | (Inr x, r') \<Rightarrow> f x r')"

definition branch_name :: string where
  "branch_name = ''feature/add-dbdemos-tracker''"

definition commit_message :: string where
  "commit_message =
     ''Add dbdemos tracker\<newline>\<newline>Automatically add dbdemos-tracker dependency and initialization code.''"

text \<open>The body of the \<open>try\<close> of \<open>process_single_repository\<close>.\<close>

definition process_single_try ::
  "'w collaborators \<Rightarrow> string \<Rightarrow> 'w run \<Rightarrow> (error + unit) \<times> 'w run" where
  "process_single_try ops repo_url =
     and_then (invoke (Call_clone_repository repo_url) (clone_repository ops repo_url))
       (\<lambda>repo_path.
     and_then (invoke_local Call_check_tracker_exists (Inr (check_tracker_exists repo_path)))
       (\<lambda>has_tracker.
     if has_tracker then (\<lambda>r. (Inr (), write_log (Tracker_already_exists repo_url) r))
     else
     and_then (invoke (Call_create_feature_branch branch_name) (create_feature_branch ops branch_name))
       (\<lambda>_.
     and_then (invoke_local Call_add_tracker_to_repo (add_tracker_to_repo repo_path))
       (\<lambda>(patched, changes_made).
     if \<not> changes_made then (\<lambda>r. (Inr (), write_log (No_changes_needed repo_url) r))
     else
     and_then (invoke Call_commit_changes (commit_changes ops patched commit_message))
       (\<lambda>_.
     and_then (invoke (Call_push_branch branch_name) (push_branch ops branch_name))
       (\<lambda>_.
     and_then (invoke (Call_create_pull_request repo_url branch_name)
                 (create_pull_request ops repo_url branch_name))
       (\<lambda>_ r. (Inr (), write_log (Successfully_processed repo_url) r))))))))"

text \<open>\<open>process_single_repository\<close>: an exception of the body is logged and raised again.\<close>

definition process_single_repository ::
  "'w collaborators \<Rightarrow> string \<Rightarrow> 'w run \<Rightarrow> (error + unit) \<times> 'w run" where
  "process_single_repository ops repo_url r =
     (case process_single_try ops repo_url r of
        (Inl e, r') \<Rightarrow> (Inl e, write_log (Error_processing repo_url e) r')
      | (Inr u, r') \<Rightarrow> (Inr u, r'))"

text \<open>\<open>process_repositories\<close>: the body of the loop is one \<open>try\<close>, and its
  \<open>except Exception\<close> logs and goes on to the next URL.\<close>

fun process_repositories :: "'w collaborators \<Rightarrow> string list \<Rightarrow> 'w run \<Rightarrow> 'w run" where
  "process_repositories ops [] r = r"
| "process_repositories ops (repo_url # rest) r =
     (case invoke_local (Call_process_single_repository repo_url) ()
             (write_log (Processing_repository repo_url) r) of
        (_, r1) \<Rightarrow>
          (case process_single_repository ops repo_url r1 of
             (Inl e, r2) \<Rightarrow> process_repositories ops rest (write_log (Failed_to_process repo_url e) r2)
           | (Inr _, r2) \<Rightarrow> process_repositories ops rest r2))"

text \<open>Reading a run: the URLs handed to \<open>process_single_repository\<close>, the exceptions
  \<open>process_single_repository\<close> logged before raising them again, and the exceptions
  \<open>process_repositories\<close> logged on catching them, each in order.\<close>

fun processed :: "call list \<Rightarrow> string list" where
  "processed [] = []"
| "processed (Call_process_single_repository repo_url # cs) = repo_url # processed cs"
| "processed (c # cs) = processed cs"

fun raised :: "log_record list \<Rightarrow> (string \<times> error) list" where
  "raised [] = []"
| "raised (Error_processing repo_url e # ls) = (repo_url, e) # raised ls"
| "raised (l # ls) = raised ls"

fun caught :: "log_record list \<Rightarrow> (string \<times> error) list" where
  "caught [] = []"
| "caught (Failed_to_process repo_url e # ls) = (repo_url, e) # caught ls"
| "caught (l # ls) = caught ls"

text \<open>Reading a patched file: line \<open>x\<close> stands right before line \<open>y\<close>.\<close>

fun right_before :: "'a \<Rightarrow> 'a \<Rightarrow> 'a list \<Rightarrow> bool" where
  "right_before x y (a # b # ls) = (if a = x \<and> b = y then True else right_before x y (b # ls))"
| "right_before x y ls = False"

section \<open>Scenarios\<close>

text \<open>Collaborators for a scenario: cloning gives what \<open>remote\<close> says for the URL, and
  every other collaborator succeeds.\<close>

definition succeeding :: "(string \<Rightarrow> error + entry list) \<Rightarrow> unit collaborators" where
  "succeeding remote =
     \<lparr>clone_repository = (\<lambda>repo_url w. (remote repo_url, w)),
      create_feature_branch = (\<lambda>branch w. (Inr (), w)),
      commit_changes = (\<lambda>tree message w. (Inr (), w)),
      push_branch = (\<lambda>branch w. (Inr (), w)),
      create_pull_request = (\<lambda>repo_url branch w. (Inr (), w))\<rparr>"

section \<open>Facts about the working tree\<close>

lemma find_entry_ename: "find_entry es n = Some e \<Longrightarrow> ename e = n"
  by (auto simp: find_entry_def find_Some_iff)

lemma find_entry_mem: "find_entry es n = Some e \<Longrightarrow> e \<in> set es"
  by (auto simp: find_entry_def find_Some_iff)

lemma find_entry_replace_other:
  "m \<noteq> n \<Longrightarrow> ename e' = n \<Longrightarrow> find_entry (replace_entry es n e') m = find_entry es m"
  by (induction es) (auto simp: find_entry_def)

lemma find_entry_replace_same:
  "find_entry es n = Some e \<Longrightarrow> ename e' = n \<Longrightarrow> find_entry (replace_entry es n e') n = Some e'"
  by (induction es) (auto simp: find_entry_def split: if_splits)

lemma find_entry_append_other:
  "ename e' \<noteq> m \<Longrightarrow> find_entry (es @ [e']) m = find_entry es m"
  by (induction es) (auto simp: find_entry_def)

lemma map_ename_replace:
  "ename e' = n \<Longrightarrow> map ename (replace_entry es n e') = map ename es"
  by (induction es) auto

lemma lookup_Cons:
  "lookup es (n # p) =
     (if p = [] then find_entry es n
      else (case find_entry es n of Some (Dir _ cs) \<Rightarrow> lookup cs p | _ \<Rightarrow> None))"
  by (cases p) auto

lemma lookup_ename: "lookup es p = Some e \<Longrightarrow> ename e = last p"
proof (induction p arbitrary: es)
  case Nil
  then show ?case by simp
next
  case (Cons n p)
  then show ?case
    by (auto simp: lookup_Cons find_entry_ename split: if_splits option.splits entry.splits)
qed

lemma store_Cons:
  "store es (n # p) e' =
     (if p = [] then (case find_entry es n of None \<Rightarrow> es @ [e'] | Some _ \<Rightarrow> replace_entry es n e')
      else (case find_entry es n of
              Some (Dir _ cs) \<Rightarrow> replace_entry es n (Dir n (store cs p e'))
            | _ \<Rightarrow> es))"
  by (cases p) auto

text \<open>Storing under one root name leaves every path under another root name as it was.\<close>

lemma lookup_store_other:
  assumes "p \<noteq> []" "q \<noteq> []" "hd p \<noteq> hd q" "ename e' = last q"
  shows "lookup (store es q e') p = lookup es p"
proof -
  obtain m p' where p: "p = m # p'" using assms(1) by (cases p) auto
  obtain n q' where q: "q = n # q'" using assms(2) by (cases q) auto
  have mn: "m \<noteq> n" using assms(3) p q by simp
  have "find_entry (store es q e') m = find_entry es m"
    using mn assms(4) unfolding q store_Cons
    by (auto simp: find_entry_replace_other find_entry_append_other split: option.splits entry.splits)
  then show ?thesis unfolding p lookup_Cons by simp
qed

lemma lookup_store_same:
  "lookup es p = Some e \<Longrightarrow> ename e' = last p \<Longrightarrow> lookup (store es p e') p = Some e'"
proof (induction p arbitrary: es e)
  case Nil
  then show ?case by simp
next
  case (Cons n p)
  show ?case
  proof (cases "p = []")
    case True
    with Cons.prems show ?thesis
      by (simp add: find_entry_replace_same)
  next
    case False
    with Cons.prems obtain d cs where d: "find_entry es n = Some (Dir d cs)" and l: "lookup cs p = Some e"
      by (auto simp: lookup_Cons split: option.splits entry.splits)
    from Cons.prems False have "ename e' = last p" by simp
    from Cons.IH[OF l this] d False show ?thesis
      by (simp add: lookup_Cons store_Cons find_entry_replace_same)
  qed
qed

lemma write_text_frame:
  assumes "write_text es q s = Inr es'" "p \<noteq> []" "hd p \<noteq> hd q"
  shows "lookup es' p = lookup es p"
proof (cases "q = []")
  case True
  with assms(1) show ?thesis
    by (auto simp: write_text_def parent_exists_def split: if_splits)
next
  case False
  with assms show ?thesis
    by (auto simp: write_text_def lookup_store_other dest: lookup_ename
        split: option.splits entry.splits if_splits)
qed

lemma append_text_frame:
  assumes "append_text es q s = Inr es'" "p \<noteq> []" "hd p \<noteq> hd q"
  shows "lookup es' p = lookup es p"
proof (cases "q = []")
  case True
  with assms(1) show ?thesis
    by (auto simp: append_text_def parent_exists_def split: if_splits)
next
  case False
  with assms show ?thesis
    by (auto simp: append_text_def lookup_store_other dest: lookup_ename
        split: option.splits entry.splits if_splits)
qed

lemma write_text_names:
  "write_text es [f] s = Inr es' \<Longrightarrow> exists es [f] \<Longrightarrow> map ename es' = map ename es"
  by (auto simp: write_text_def exists_def map_ename_replace dest: find_entry_ename
      split: option.splits entry.splits if_splits)

lemma append_text_names:
  "append_text es [f] s = Inr es' \<Longrightarrow> exists es [f] \<Longrightarrow> map ename es' = map ename es"
  by (auto simp: append_text_def exists_def map_ename_replace dest: find_entry_ename
      split: option.splits entry.splits if_splits)

text \<open>A file that was there and has been written holds what was written.\<close>

lemma read_after_write:
  assumes "write_text es p s = Inr es'" "lookup es p \<noteq> None"
  shows "read_text es' p = Inr s"
proof -
  from assms obtain n c b where l: "lookup es p = Some (File n c b True)"
    and es': "es' = store es p (File n (Some s) (utf8_len s) True)"
    by (auto simp: write_text_def split: option.splits entry.splits if_splits)
  from lookup_ename[OF l] have "ename (File n (Some s) (utf8_len s) True) = last p" by simp
  from lookup_store_same[OF l this] show ?thesis by (simp add: read_text_def es')
qed

section \<open>The Dependency Patcher\<close>

text \<open>
  C1.  \<open>add_to_pyproject\<close> on a file that has the dependencies header and no entry for the
  dependency is to insert one line right after the header line and report a change.  The
  function tests for the header as a substring of the file, and searches for it as a whole
  stripped line.  Here the header line carries a comment: the header is in the file, no line
  is the header, and the function writes the file back as it read it and still reports a
  change.
\<close>

theorem add_to_pyproject_header_with_comment:
  "add_to_pyproject
     [File ''pyproject.toml''
        (Some (''[tool.poetry.dependencies] # runtime\<newline>requests = '' @ [DQ, CHR ''*'', DQ, NL]))
        52 True]
     [''pyproject.toml''] =
   Inr ([File ''pyproject.toml''
           (Some (''[tool.poetry.dependencies] # runtime\<newline>requests = '' @ [DQ, CHR ''*'', DQ, NL]))
           52 True],
        True)"
  by code_simp

text \<open>
  C2.  \<open>add_to_requirements\<close> on a file without the dependency name is to leave the name on a
  line of its own.  The function appends the name and a newline to whatever the file ends
  with.  Here the last line has no newline: the name is glued to it, and no line of the
  result is the name.
\<close>

theorem add_to_requirements_unterminated_last_line:
  "add_to_requirements [File ''requirements.txt'' (Some ''requests'') 8 True] [''requirements.txt''] =
     Inr ([File ''requirements.txt'' (Some ''requestsdbdemos-tracker\<newline>'') 24 True], True) \<and>
   DEP \<notin> set (split_nl ''requestsdbdemos-tracker\<newline>'')"
  by code_simp

text \<open>
  C3.  A second run of \<open>add_dependency\<close> on the state the first run left is to report no
  change.  Here \<open>pyproject.toml\<close> names the header inside a comment: the first run reports a
  change and leaves the file as it was, and so does the second.
\<close>

theorem add_dependency_second_run_reports_change:
  "(case add_dependency [File ''pyproject.toml'' (Some ''# see [tool.poetry.dependencies]'') 32 True] of
      Inl e \<Rightarrow> Inl e
    | Inr (es1, changed1) \<Rightarrow> add_dependency es1) =
   Inr ([File ''pyproject.toml'' (Some ''# see [tool.poetry.dependencies]'') 32 True], True)"
  by code_simp

text \<open>Each of the four functions writes the file it is given and no other.\<close>

lemma add_to_requirements_frame:
  assumes "add_to_requirements es [f] = Inr (es', changed)"
  shows "(exists es [f] \<longrightarrow> map ename es' = map ename es) \<and>
         (\<forall>p. p \<noteq> [] \<and> hd p \<noteq> f \<longrightarrow> lookup es' p = lookup es p)"
  using assms
  by (auto simp: add_to_requirements_def append_text_names dest: append_text_frame
      split: sum.splits if_splits)

lemma add_under_header_frame:
  assumes "add_under_header h es [f] = Inr (es', changed)"
  shows "(exists es [f] \<longrightarrow> map ename es' = map ename es) \<and>
         (\<forall>p. p \<noteq> [] \<and> hd p \<noteq> f \<longrightarrow> lookup es' p = lookup es p)"
  using assms
  by (auto simp: add_under_header_def write_text_names dest: write_text_frame
      split: sum.splits if_splits)

lemma add_to_setup_py_frame:
  assumes "add_to_setup_py es [f] = Inr (es', changed)"
  shows "(exists es [f] \<longrightarrow> map ename es' = map ename es) \<and>
         (\<forall>p. p \<noteq> [] \<and> hd p \<noteq> f \<longrightarrow> lookup es' p = lookup es p)"
  using assms
  by (auto simp: add_to_setup_py_def Let_def write_text_names dest: write_text_frame
      split: sum.splits if_splits option.splits prod.splits)

lemma create_requirements:
  "\<not> exists es [''requirements.txt''] \<Longrightarrow>
   write_text es [''requirements.txt''] (DEP @ [NL]) =
     Inr (es @ [File ''requirements.txt'' (Some ''dbdemos-tracker\<newline>'') 16 True])"
  by (simp add: write_text_def exists_def parent_exists_def DEP_def NL_def utf8_len_def)

lemma add_dependency_target:
  assumes "find (\<lambda>f. exists es [f]) [''requirements.txt'', ''pyproject.toml'', ''setup.py'', ''Pipfile''] = Some f"
    and "add_dependency es = Inr (es', changed)"
  shows "map ename es' = map ename es \<and> (\<forall>p. p \<noteq> [] \<and> hd p \<noteq> f \<longrightarrow> lookup es' p = lookup es p)"
proof -
  from assms have "exists es [f] \<and>
     (add_to_requirements es [f] = Inr (es', changed) \<or>
      add_under_header ''[tool.poetry.dependencies]'' es [f] = Inr (es', changed) \<or>
      add_to_setup_py es [f] = Inr (es', changed) \<or>
      add_under_header ''[packages]'' es [f] = Inr (es', changed))"
    by (auto simp: add_dependency_def dependency_targets_def add_to_pyproject_def add_to_pipfile_def
        split: if_splits)
  then show ?thesis
    using add_to_requirements_frame add_under_header_frame add_to_setup_py_frame by blast
qed

lemma add_dependency_create:
  assumes "find (\<lambda>f. exists es [f]) [''requirements.txt'', ''pyproject.toml'', ''setup.py'', ''Pipfile''] = None"
  shows "add_dependency es =
        Inr (es @ [File ''requirements.txt'' (Some ''dbdemos-tracker\<newline>'') 16 True], True)"
  using assms
  by (simp add: add_dependency_def dependency_targets_def create_requirements split: if_splits)

text \<open>
  C6.  Let \<open>f\<close> be the first of \<open>requirements.txt\<close>, \<open>pyproject.toml\<close>, \<open>setup.py\<close>,
  \<open>Pipfile\<close> that exists at the root.  Whenever \<open>add_dependency\<close> returns, the root lists the
  same names in the same order, and every path that does not start with \<open>f\<close> leads to what
  it led to before: no other manifest, and nothing else in the tree, is edited.  When none of
  the four exists, \<open>add_dependency\<close> returns \<open>True\<close> and the tree has one more entry, the file
  \<open>requirements.txt\<close> holding the dependency name and a newline.
\<close>

theorem add_dependency_sole_target:
  "(\<forall>f es' changed.
      find (\<lambda>f. exists es [f]) [''requirements.txt'', ''pyproject.toml'', ''setup.py'', ''Pipfile''] = Some f \<and>
      add_dependency es = Inr (es', changed) \<longrightarrow>
      map ename es' = map ename es \<and> (\<forall>p. p \<noteq> [] \<and> hd p \<noteq> f \<longrightarrow> lookup es' p = lookup es p)) \<and>
   (find (\<lambda>f. exists es [f]) [''requirements.txt'', ''pyproject.toml'', ''setup.py'', ''Pipfile''] = None \<longrightarrow>
      add_dependency es =
        Inr (es @ [File ''requirements.txt'' (Some ''dbdemos-tracker\<newline>'') 16 True], True))"
  using add_dependency_target add_dependency_create by blast

text \<open>With \<open>setup.py\<close> and \<open>requirements.txt\<close> both there, \<open>requirements.txt\<close> is edited and
  \<open>setup.py\<close> is not; with no manifest, \<open>requirements.txt\<close> is created.\<close>

theorem add_dependency_sole_target_witness:
  "find (\<lambda>f. exists [File ''setup.py'' (Some ''setup()'') 7 True,
                      File ''requirements.txt'' (Some ''requests\<newline>'') 9 True] [f])
     [''requirements.txt'', ''pyproject.toml'', ''setup.py'', ''Pipfile''] = Some ''requirements.txt'' \<and>
   add_dependency [File ''setup.py'' (Some ''setup()'') 7 True,
                   File ''requirements.txt'' (Some ''requests\<newline>'') 9 True] =
     Inr ([File ''setup.py'' (Some ''setup()'') 7 True,
           File ''requirements.txt'' (Some ''requests\<newline>dbdemos-tracker\<newline>'') 25 True], True) \<and>
   lookup [File ''setup.py'' (Some ''setup()'') 7 True,
           File ''requirements.txt'' (Some ''requests\<newline>dbdemos-tracker\<newline>'') 25 True] [''setup.py''] =
     lookup [File ''setup.py'' (Some ''setup()'') 7 True,
             File ''requirements.txt'' (Some ''requests\<newline>'') 9 True] [''setup.py''] \<and>
   find (\<lambda>f. exists [Dir ''src'' []] [f])
     [''requirements.txt'', ''pyproject.toml'', ''setup.py'', ''Pipfile''] = None \<and>
   add_dependency [Dir ''src'' []] =
     Inr ([Dir ''src'' [], File ''requirements.txt'' (Some ''dbdemos-tracker\<newline>'') 16 True], True)"
proof -
  let ?es = "[File ''setup.py'' (Some ''setup()'') 7 True,
              File ''requirements.txt'' (Some ''requests\<newline>'') 9 True]"
  let ?es' = "[File ''setup.py'' (Some ''setup()'') 7 True,
               File ''requirements.txt'' (Some ''requests\<newline>dbdemos-tracker\<newline>'') 25 True]"
  have h1: "find (\<lambda>f. exists ?es [f])
     [''requirements.txt'', ''pyproject.toml'', ''setup.py'', ''Pipfile''] = Some ''requirements.txt''"
    by (simp add: exists_def find_entry_def)
  have h2: "add_dependency ?es = Inr (?es', True)"
    by code_simp
  have h3: "find (\<lambda>f. exists [Dir ''src'' []] [f])
     [''requirements.txt'', ''pyproject.toml'', ''setup.py'', ''Pipfile''] = None"
    by (simp add: exists_def find_entry_def)
  have a: "map ename ?es' = map ename ?es \<and>
      (\<forall>p. p \<noteq> [] \<and> hd p \<noteq> ''requirements.txt'' \<longrightarrow> lookup ?es' p = lookup ?es p)"
    by (rule add_dependency_sole_target[of ?es, THEN conjunct1, THEN spec, THEN spec, THEN spec,
          THEN mp, OF conjI[OF h1 h2]])
  from a[THEN conjunct2, THEN spec, of "[''setup.py'']"]
  have b: "lookup ?es' [''setup.py''] = lookup ?es [''setup.py'']"
    by simp
  have c: "add_dependency [Dir ''src'' []] =
     Inr ([Dir ''src'' []] @ [File ''requirements.txt'' (Some ''dbdemos-tracker\<newline>'') 16 True], True)"
    by (rule add_dependency_sole_target[of "[Dir ''src'' []]", THEN conjunct2, THEN mp, OF h3])
  show ?thesis
    apply (intro conjI)
        apply (rule h1)
       apply (rule h2)
      apply (rule b)
     apply (rule h3)
    using c apply simp
    done
qed

section \<open>The Detector and the Orchestrator's early return\<close>

lemma check_dependency_loop_hit:
  "dep_file \<in> set fs \<Longrightarrow> lookup es [dep_file] = Some (File n (Some content) b w) \<Longrightarrow>
   sublist DEP content \<Longrightarrow> check_dependency_loop es fs"
  by (induction fs) (auto simp: exists_def read_text_def split: sum.splits)

text \<open>
  C5.  When one of the six manifest names of the Detector is, at the root of the cloned
  repository, a file whose text contains the dependency name, \<open>check_tracker_exists\<close> is true,
  and \<open>process_single_repository\<close> returns after two calls, \<open>clone_repository\<close> and
  \<open>check_tracker_exists\<close>: \<open>add_tracker_to_repo\<close>, the one caller of \<open>add_dependency\<close> and
  \<open>add_initialization\<close>, is not called, nor is any collaborator after the clone.
\<close>

theorem detector_hit_skips_patchers:
  "dep_file \<in> set dependency_files \<Longrightarrow>
   lookup es [dep_file] = Some (File n (Some content) b w) \<Longrightarrow>
   sublist DEP content \<Longrightarrow>
   check_tracker_exists es \<and>
   (\<forall>ops repo_url r w1.
      clone_repository ops repo_url (world r) = (Inr es, w1) \<longrightarrow>
      process_single_repository ops repo_url r =
        (Inr (), r\<lparr>world := w1,
                    calls := calls r @ [Call_clone_repository repo_url, Call_check_tracker_exists],
                    records := records r @ [Tracker_already_exists repo_url]\<rparr>))"
  by (simp add: check_tracker_exists_def check_dependency_files_def check_dependency_loop_hit
      process_single_repository_def process_single_try_def and_then_def invoke_def
      invoke_local_def write_log_def)

text \<open>The name is in \<open>poetry.lock\<close>, the last manifest the Detector reads.\<close>

theorem detector_hit_skips_patchers_witness:
  "check_tracker_exists
     [File ''requirements.txt'' (Some ''requests\<newline>'') 9 True,
      File ''poetry.lock'' (Some ''name = dbdemos-tracker\<newline>'') 23 True] \<and>
   process_single_repository
     (succeeding (\<lambda>repo_url. Inr [File ''requirements.txt'' (Some ''requests\<newline>'') 9 True,
                                  File ''poetry.lock'' (Some ''name = dbdemos-tracker\<newline>'') 23 True]))
     ''https://github.com/org/repo.git'' \<lparr>world = (), records = [], calls = []\<rparr> =
     (Inr (), \<lparr>world = (), records = [Tracker_already_exists ''https://github.com/org/repo.git''],
               calls = [Call_clone_repository ''https://github.com/org/repo.git'',
                        Call_check_tracker_exists]\<rparr>)"
proof -
  let ?es = "[File ''requirements.txt'' (Some ''requests\<newline>'') 9 True,
      File ''poetry.lock'' (Some ''name = dbdemos-tracker\<newline>'') 23 True]"
  have h1: "''poetry.lock'' \<in> set dependency_files"
    by (simp add: dependency_files_def)
  have h2: "lookup ?es [''poetry.lock''] =
      Some (File ''poetry.lock'' (Some ''name = dbdemos-tracker\<newline>'') 23 True)"
    by (simp add: find_entry_def)
  have h3: "sublist DEP ''name = dbdemos-tracker\<newline>''"
    by code_simp
  have h4: "clone_repository (succeeding (\<lambda>repo_url. Inr ?es)) ''https://github.com/org/repo.git''
              (world \<lparr>world = (), records = [], calls = []\<rparr>) = (Inr ?es, ())"
    by (simp add: succeeding_def)
  from detector_hit_skips_patchers[OF h1 h2 h3, THEN conjunct1]
    detector_hit_skips_patchers[OF h1 h2 h3, THEN conjunct2, rule_format, OF h4]
  show ?thesis
    by simp
qed

section \<open>The Initialization Patcher\<close>

lemma sublist_join_nl: "l \<in> set ls \<Longrightarrow> sublist l (join_nl ls)"
proof (induction ls rule: join_nl.induct)
  case 1
  then show ?case by simp
next
  case (2 l')
  then show ?case by simp
next
  case (3 l' v va)
  show ?case
  proof (cases "l = l'")
    case True
    then show ?thesis by simp
  next
    case False
    with 3 have "sublist l (join_nl (v # va))" by simp
    then have "sublist l ((l' @ [NL]) @ join_nl (v # va))"
      by (simp add: sublist_append sublist_Cons_right)
    then show ?thesis by simp
  qed
qed

lemma set_insert_at: "set (insert_at i x xs) = insert x (set xs)"
proof -
  have "set (take i xs) \<union> set (drop i xs) = set xs"
    by (metis append_take_drop_id set_append)
  then show ?thesis by (auto simp: insert_at_def)
qed

lemma import_line_in_patch_lines: "IMPORT_LINE \<in> set (patch_lines ls)"
  by (auto simp: patch_lines_def Let_def init_in_main_block_def init_in_main_function_def
      set_insert_at split: option.splits)

lemma patched_text_has_import:
  "sublist ''import dbdemos_tracker'' (join_nl (patch_lines ls))"
  using sublist_join_nl[OF import_line_in_patch_lines] by (simp add: IMPORT_LINE_def)

lemma init_guard:
  "read_text es p = Inr content \<Longrightarrow>
   sublist ''import dbdemos_tracker'' content \<or> sublist ''from dbdemos_tracker'' content \<Longrightarrow>
   add_tracker_init_to_file es p = (es, False)"
  by (simp add: add_tracker_init_to_file_def add_tracker_init_try_def)

lemma init_twice:
  assumes "add_tracker_init_to_file es p = (es1, changed)"
  shows "add_tracker_init_to_file es1 p = (es1, False)"
proof (cases changed)
  case False
  with assms have "es1 = es"
    by (auto simp: add_tracker_init_to_file_def add_tracker_init_try_def split: sum.splits if_splits)
  with assms False show ?thesis by simp
next
  case True
  with assms obtain content where r: "read_text es p = Inr content"
    and w: "write_text es p (join_nl (patch_lines (split_nl content))) = Inr es1"
    by (auto simp: add_tracker_init_to_file_def add_tracker_init_try_def split: sum.splits if_splits)
  from r have "lookup es p \<noteq> None" by (auto simp: read_text_def split: option.splits)
  from read_after_write[OF w this] patched_text_has_import show ?thesis
    by (intro init_guard) auto
qed

text \<open>
  C4.  \<open>add_tracker_init_to_file\<close> on a file whose text contains \<open>import dbdemos_tracker\<close>
  or \<open>from dbdemos_tracker\<close> leaves the tree as it is and returns \<open>False\<close>, whatever else the
  text holds (the call to \<open>initialize\<close> or not): the test comes first in the function.  And
  whatever a first application returns, a second one on the tree it left changes nothing and
  returns \<open>False\<close>, since the text a first application writes has the import line.
\<close>

theorem import_guard_prevents_second_insertion:
  "(\<forall>content. read_text es p = Inr content \<and>
      (sublist ''import dbdemos_tracker'' content \<or> sublist ''from dbdemos_tracker'' content) \<longrightarrow>
      add_tracker_init_to_file es p = (es, False)) \<and>
   (\<forall>es1 changed. add_tracker_init_to_file es p = (es1, changed) \<longrightarrow>
      add_tracker_init_to_file es1 p = (es1, False))"
  using init_guard init_twice by blast

text \<open>A file that imports the module and never calls it is left alone; a file without the
  import is patched once, and not again.\<close>

theorem import_guard_prevents_second_insertion_witness:
  "add_tracker_init_to_file
     [File ''main.py'' (Some ''import dbdemos_tracker\<newline>print(1)\<newline>'') 32 True] [''main.py''] =
     ([File ''main.py'' (Some ''import dbdemos_tracker\<newline>print(1)\<newline>'') 32 True], False) \<and>
   add_tracker_init_to_file [File ''app.py'' (Some ''print(1)'') 8 True] [''app.py''] =
     ([File ''app.py''
         (Some ''import dbdemos_tracker\<newline>print(1)\<newline>\<newline># Initialize dbdemos tracker\<newline>dbdemos_tracker.initialize()'')
         90 True], True) \<and>
   add_tracker_init_to_file
     [File ''app.py''
        (Some ''import dbdemos_tracker\<newline>print(1)\<newline>\<newline># Initialize dbdemos tracker\<newline>dbdemos_tracker.initialize()'')
        90 True] [''app.py''] =
     ([File ''app.py''
         (Some ''import dbdemos_tracker\<newline>print(1)\<newline>\<newline># Initialize dbdemos tracker\<newline>dbdemos_tracker.initialize()'')
         90 True], False)"
proof -
  let ?a = "[File ''main.py'' (Some ''import dbdemos_tracker\<newline>print(1)\<newline>'') 32 True]"
  let ?b = "[File ''app.py'' (Some ''print(1)'') 8 True]"
  let ?b1 = "[File ''app.py''
         (Some ''import dbdemos_tracker\<newline>print(1)\<newline>\<newline># Initialize dbdemos tracker\<newline>dbdemos_tracker.initialize()'')
         90 True]"
  have h1: "read_text ?a [''main.py''] = Inr ''import dbdemos_tracker\<newline>print(1)\<newline>''"
    by (simp add: read_text_def find_entry_def)
  have h2: "sublist ''import dbdemos_tracker'' ''import dbdemos_tracker\<newline>print(1)\<newline>''"
    by code_simp
  have h3: "add_tracker_init_to_file ?b [''app.py''] = (?b1, True)"
    by code_simp
  show ?thesis
    apply (intro conjI)
      apply (rule import_guard_prevents_second_insertion[of ?a "[''main.py'']", THEN conjunct1, rule_format, OF conjI[OF h1 disjI1[OF h2]]])
     apply (rule h3)
    apply (rule import_guard_prevents_second_insertion[of ?b "[''app.py'']", THEN conjunct2, rule_format, OF h3])
    done
qed

text \<open>When the body of the \<open>try\<close> raises, \<open>add_tracker_init_to_file\<close> returns \<open>False\<close> and the
  tree is as it was.  The body raises when reading raises, or when the guard passes and
  writing raises; computing the new text raises nothing.\<close>

lemma init_try_raises:
  assumes "read_text es target = Inl e \<or>
     (\<exists>content. read_text es target = Inr content \<and>
        \<not> sublist ''import dbdemos_tracker'' content \<and> \<not> sublist ''from dbdemos_tracker'' content \<and>
        write_text es target (join_nl (patch_lines (split_nl content))) = Inl e)"
  shows "add_tracker_init_to_file es target = (es, False)"
  using assms by (auto simp: add_tracker_init_to_file_def add_tracker_init_try_def)

lemma add_initialization_target:
  assumes "(first_existing es (entry_points @ root_python_files es) = Some f \<and> target = [f]) \<or>
     (first_existing es (entry_points @ root_python_files es) = None \<and>
      largest_python_file (walk_repo es) None 0 = Some target)"
  shows "add_initialization es = Inr (add_tracker_init_to_file es target)"
  using assms by (auto simp: add_initialization_def)

text \<open>
  C10.  If reading the target raises, or the import is absent and writing the new text back
  raises, \<open>add_tracker_init_to_file\<close> returns \<open>False\<close> with the tree unchanged.  When that
  target is the one \<open>add_initialization\<close> chooses (the first candidate that exists, else the
  largest Python file), \<open>add_initialization\<close> returns \<open>False\<close> normally, and
  \<open>add_tracker_to_repo\<close> returns what \<open>add_dependency\<close> returned.
\<close>

theorem failed_init_patch_reports_no_change:
  assumes "read_text es1 target = Inl e \<or>
     (\<exists>content. read_text es1 target = Inr content \<and>
        \<not> sublist ''import dbdemos_tracker'' content \<and> \<not> sublist ''from dbdemos_tracker'' content \<and>
        write_text es1 target (join_nl (patch_lines (split_nl content))) = Inl e)"
  shows "add_tracker_init_to_file es1 target = (es1, False) \<and>
     ((first_existing es1 (entry_points @ root_python_files es1) = Some f \<and> target = [f]) \<or>
      (first_existing es1 (entry_points @ root_python_files es1) = None \<and>
       largest_python_file (walk_repo es1) None 0 = Some target) \<longrightarrow>
      add_initialization es1 = Inr (es1, False) \<and>
      (\<forall>es changed. add_dependency es = Inr (es1, changed) \<longrightarrow>
         add_tracker_to_repo es = Inr (es1, changed)))"
proof -
  have a: "add_tracker_init_to_file es1 target = (es1, False)"
    using assms by (rule init_try_raises)
  have b: "add_initialization es1 = Inr (es1, False)"
    if "(first_existing es1 (entry_points @ root_python_files es1) = Some f \<and> target = [f]) \<or>
      (first_existing es1 (entry_points @ root_python_files es1) = None \<and>
       largest_python_file (walk_repo es1) None 0 = Some target)"
    using add_initialization_target[OF that] a by simp
  have c: "add_tracker_to_repo es = Inr (es1, changed)"
    if "add_initialization es1 = Inr (es1, False)" "add_dependency es = Inr (es1, changed)"
    for es changed
    using that by (simp add: add_tracker_to_repo_def)
  from a b c show ?thesis by blast
qed

text \<open>\<open>main.py\<close> is a directory, so reading it raises; \<open>src/cli.py\<close> is read-only, so
  writing it raises.\<close>

theorem failed_init_patch_reports_no_change_witness:
  "read_text [Dir ''main.py'' [],
              File ''requirements.txt'' (Some ''requests\<newline>dbdemos-tracker\<newline>'') 25 True]
     [''main.py''] = Inl IsADirectoryError \<and>
   add_tracker_init_to_file
     [Dir ''main.py'' [],
      File ''requirements.txt'' (Some ''requests\<newline>dbdemos-tracker\<newline>'') 25 True] [''main.py''] =
     ([Dir ''main.py'' [],
       File ''requirements.txt'' (Some ''requests\<newline>dbdemos-tracker\<newline>'') 25 True], False) \<and>
   add_dependency [Dir ''main.py'' [], File ''requirements.txt'' (Some ''requests\<newline>'') 9 True] =
     Inr ([Dir ''main.py'' [],
           File ''requirements.txt'' (Some ''requests\<newline>dbdemos-tracker\<newline>'') 25 True], True) \<and>
   add_tracker_to_repo [Dir ''main.py'' [], File ''requirements.txt'' (Some ''requests\<newline>'') 9 True] =
     Inr ([Dir ''main.py'' [],
           File ''requirements.txt'' (Some ''requests\<newline>dbdemos-tracker\<newline>'') 25 True], True) \<and>
   add_tracker_init_to_file [Dir ''src'' [File ''cli.py'' (Some ''print(1)'') 8 False]] [''src'', ''cli.py''] =
     ([Dir ''src'' [File ''cli.py'' (Some ''print(1)'') 8 False]], False)"
proof -
  let ?es0 = "[Dir ''main.py'' [], File ''requirements.txt'' (Some ''requests\<newline>'') 9 True]"
  let ?es1 = "[Dir ''main.py'' [],
               File ''requirements.txt'' (Some ''requests\<newline>dbdemos-tracker\<newline>'') 25 True]"
  let ?ro = "[Dir ''src'' [File ''cli.py'' (Some ''print(1)'') 8 False]]"
  have h1: "read_text ?es1 [''main.py''] = Inl IsADirectoryError"
    by (simp add: read_text_def find_entry_def)
  have h2: "first_existing ?es1 (entry_points @ root_python_files ?es1) = Some ''main.py''"
    by (simp add: entry_points_def exists_def find_entry_def)
  have h3: "add_dependency ?es0 = Inr (?es1, True)"
    by code_simp
  have h4: "read_text ?ro [''src'', ''cli.py''] = Inr ''print(1)'' \<and>
        \<not> sublist ''import dbdemos_tracker'' ''print(1)'' \<and>
        \<not> sublist ''from dbdemos_tracker'' ''print(1)'' \<and>
        write_text ?ro [''src'', ''cli.py''] (join_nl (patch_lines (split_nl ''print(1)''))) =
          Inl PermissionError"
    by code_simp
  have h5: "read_text ?ro [''src'', ''cli.py''] = Inl PermissionError \<or>
     (\<exists>content. read_text ?ro [''src'', ''cli.py''] = Inr content \<and>
        \<not> sublist ''import dbdemos_tracker'' content \<and> \<not> sublist ''from dbdemos_tracker'' content \<and>
        write_text ?ro [''src'', ''cli.py''] (join_nl (patch_lines (split_nl content))) =
          Inl PermissionError)"
    by (rule disjI2, rule exI[where x = "''print(1)''"], rule h4)
  note t = failed_init_patch_reports_no_change[of ?es1 "[''main.py'']" IsADirectoryError "''main.py''",
      OF disjI1[OF h1]]
  note u = t[THEN conjunct2, THEN mp, OF disjI1[OF conjI[OF h2 refl]]]
  show ?thesis
    apply (intro conjI)
        apply (rule h1)
       apply (rule t[THEN conjunct1])
      apply (rule h3)
     apply (rule u[THEN conjunct2, rule_format, OF h3])
    apply (rule failed_init_patch_reports_no_change[of ?ro "[''src'', ''cli.py'']" PermissionError,
          OF h5, THEN conjunct1])
    done
qed

section \<open>The batch\<close>

lemma processed_append: "processed (xs @ ys) = processed xs @ processed ys"
  by (induction xs rule: processed.induct) auto

lemma raised_append: "raised (xs @ ys) = raised xs @ raised ys"
  by (induction xs rule: raised.induct) auto

lemma caught_append: "caught (xs @ ys) = caught xs @ caught ys"
  by (induction xs rule: caught.induct) auto

lemma invoke_frame:
  "invoke c f r = (res, r') \<Longrightarrow> processed [c] = [] \<Longrightarrow>
   processed (calls r') = processed (calls r) \<and> records r' = records r"
  by (auto simp: invoke_def processed_append split: prod.splits)

lemma process_single_try_frame:
  assumes "process_single_try ops repo_url r = (res, r')"
  shows "processed (calls r') = processed (calls r) \<and> raised (records r') = raised (records r) \<and>
         caught (records r') = caught (records r)"
  using assms
  unfolding process_single_try_def and_then_def invoke_def invoke_local_def write_log_def
  by (auto simp: processed_append raised_append caught_append split: prod.splits sum.splits if_splits)


lemma process_single_repository_frame:
  assumes "process_single_repository ops repo_url r = (res, r')"
  shows "processed (calls r') = processed (calls r) \<and>
         caught (records r') = caught (records r) \<and>
         raised (records r') =
           raised (records r) @ (case res of Inl e \<Rightarrow> [(repo_url, e)] | Inr _ \<Rightarrow> [])"
proof -
  obtain res0 r0 where t: "process_single_try ops repo_url r = (res0, r0)"
    by (cases "process_single_try ops repo_url r")
  from process_single_try_frame[OF t] t assms show ?thesis
    by (auto simp: process_single_repository_def write_log_def raised_append caught_append
        split: sum.splits)
qed

lemma batch_step:
  "process_repositories ops (repo_url # rest) r =
     (case process_single_repository ops repo_url
             (r\<lparr>records := records r @ [Processing_repository repo_url],
                calls := calls r @ [Call_process_single_repository repo_url]\<rparr>) of
        (Inl e, r2) \<Rightarrow> process_repositories ops rest (write_log (Failed_to_process repo_url e) r2)
      | (Inr u, r2) \<Rightarrow> process_repositories ops rest r2)"
  by (simp add: invoke_local_def write_log_def)

lemma batch_all:
  "processed (calls (process_repositories ops urls r)) = processed (calls r) @ urls \<and>
   (\<exists>failures.
      raised (records (process_repositories ops urls r)) = raised (records r) @ failures \<and>
      caught (records (process_repositories ops urls r)) = caught (records r) @ failures \<and>
      set (map fst failures) \<subseteq> set urls)"
proof (induction urls arbitrary: r)
  case Nil
  then show ?case by simp
next
  case (Cons u urls)
  let ?r1 = "r\<lparr>records := records r @ [Processing_repository u],
               calls := calls r @ [Call_process_single_repository u]\<rparr>"
  obtain res r2 where s: "process_single_repository ops u ?r1 = (res, r2)"
    by (cases "process_single_repository ops u ?r1")
  note f = process_single_repository_frame[OF s]
  show ?case
  proof (cases res)
    case (Inl e)
    let ?r3 = "write_log (Failed_to_process u e) r2"
    have step: "process_repositories ops (u # urls) r = process_repositories ops urls ?r3"
      using s Inl by (simp add: batch_step del: process_repositories.simps)
    from Cons.IH[of ?r3] obtain fs where
      a: "processed (calls (process_repositories ops urls ?r3)) = processed (calls ?r3) @ urls"
      and b: "raised (records (process_repositories ops urls ?r3)) = raised (records ?r3) @ fs"
      and c: "caught (records (process_repositories ops urls ?r3)) = caught (records ?r3) @ fs"
      and d: "set (map fst fs) \<subseteq> set urls"
      by blast
    have "processed (calls ?r3) = processed (calls r) @ [u]"
      using f by (simp add: write_log_def processed_append)
    moreover have "raised (records ?r3) = raised (records r) @ [(u, e)]"
      using f Inl by (simp add: write_log_def raised_append)
    moreover have "caught (records ?r3) = caught (records r) @ [(u, e)]"
      using f by (simp add: write_log_def caught_append)
    ultimately show ?thesis
      unfolding step using a b c d
      by (intro conjI exI[where x = "(u, e) # fs"]) auto
  next
    case (Inr x)
    have step: "process_repositories ops (u # urls) r = process_repositories ops urls r2"
      using s Inr by (simp add: batch_step del: process_repositories.simps)
    from Cons.IH[of r2] obtain fs where
      a: "processed (calls (process_repositories ops urls r2)) = processed (calls r2) @ urls"
      and b: "raised (records (process_repositories ops urls r2)) = raised (records r2) @ fs"
      and c: "caught (records (process_repositories ops urls r2)) = caught (records r2) @ fs"
      and d: "set (map fst fs) \<subseteq> set urls"
      by blast
    have "processed (calls r2) = processed (calls r) @ [u]"
      using f by (simp add: processed_append)
    moreover have "raised (records r2) = raised (records r)"
      using f Inr by (simp add: raised_append)
    moreover have "caught (records r2) = caught (records r)"
      using f by (simp add: caught_append)
    ultimately show ?thesis
      unfolding step using a b c d
      by (intro conjI exI[where x = fs]) auto
  qed
qed

text \<open>
  C8.  For every list of URLs, whatever the collaborators do: every URL of the list is handed
  to \<open>process_single_repository\<close>, in order; the exceptions \<open>process_repositories\<close> catches and
  logs with the URL (\<open>Failed to process\<close>) are the exceptions the single repositories raised
  (\<open>Error processing\<close>), one for one and in order, each for a URL of the list; and when
  processing the first URL raises, the batch goes on with the rest of the list from the state
  the failure left, after logging it.  \<open>process_repositories\<close> itself returns a run and
  raises nothing.
\<close>

theorem batch_survives_repository_failure:
  "processed (calls (process_repositories ops urls r)) = processed (calls r) @ urls \<and>
   (\<exists>failures.
      raised (records (process_repositories ops urls r)) = raised (records r) @ failures \<and>
      caught (records (process_repositories ops urls r)) = caught (records r) @ failures \<and>
      set (map fst failures) \<subseteq> set urls) \<and>
   (\<forall>repo_url rest e r2.
      process_single_repository ops repo_url
        (r\<lparr>records := records r @ [Processing_repository repo_url],
           calls := calls r @ [Call_process_single_repository repo_url]\<rparr>) = (Inl e, r2) \<longrightarrow>
      process_repositories ops (repo_url # rest) r =
        process_repositories ops rest (r2\<lparr>records := records r2 @ [Failed_to_process repo_url e]\<rparr>))"
  using batch_all[of ops urls r] by (simp add: batch_step write_log_def del: process_repositories.simps)

text \<open>Three repositories, the second fails to clone: the first and the third get their pull
  request, the failure of the second is logged with its URL.\<close>

theorem batch_survives_repository_failure_witness:
  "process_repositories
     (succeeding (\<lambda>repo_url. if repo_url = ''git://b'' then Inl (ExternalError ''clone failed'') else Inr []))
     [''git://a'', ''git://b'', ''git://c'']
     \<lparr>world = (), records = [], calls = []\<rparr> =
   \<lparr>world = (),
     records =
       [Processing_repository ''git://a'', Successfully_processed ''git://a'',
        Processing_repository ''git://b'',
        Error_processing ''git://b'' (ExternalError ''clone failed''),
        Failed_to_process ''git://b'' (ExternalError ''clone failed''),
        Processing_repository ''git://c'', Successfully_processed ''git://c''],
     calls =
       [Call_process_single_repository ''git://a'', Call_clone_repository ''git://a'',
        Call_check_tracker_exists, Call_create_feature_branch ''feature/add-dbdemos-tracker'',
        Call_add_tracker_to_repo, Call_commit_changes,
        Call_push_branch ''feature/add-dbdemos-tracker'',
        Call_create_pull_request ''git://a'' ''feature/add-dbdemos-tracker'',
        Call_process_single_repository ''git://b'', Call_clone_repository ''git://b'',
        Call_process_single_repository ''git://c'', Call_clone_repository ''git://c'',
        Call_check_tracker_exists, Call_create_feature_branch ''feature/add-dbdemos-tracker'',
        Call_add_tracker_to_repo, Call_commit_changes,
        Call_push_branch ''feature/add-dbdemos-tracker'',
        Call_create_pull_request ''git://c'' ''feature/add-dbdemos-tracker'']\<rparr> \<and>
   processed (calls (process_repositories
     (succeeding (\<lambda>repo_url. if repo_url = ''git://b'' then Inl (ExternalError ''clone failed'') else Inr []))
     [''git://a'', ''git://b'', ''git://c'']
     \<lparr>world = (), records = [], calls = []\<rparr>)) = [''git://a'', ''git://b'', ''git://c''] \<and>
   process_repositories
     (succeeding (\<lambda>repo_url. if repo_url = ''git://b'' then Inl (ExternalError ''clone failed'') else Inr []))
     [''git://b'', ''git://c'']
     \<lparr>world = (), records = [], calls = []\<rparr> =
   process_repositories
     (succeeding (\<lambda>repo_url. if repo_url = ''git://b'' then Inl (ExternalError ''clone failed'') else Inr []))
     [''git://c'']
     \<lparr>world = (),
       records = [Processing_repository ''git://b'',
                  Error_processing ''git://b'' (ExternalError ''clone failed''),
                  Failed_to_process ''git://b'' (ExternalError ''clone failed'')],
       calls = [Call_process_single_repository ''git://b'', Call_clone_repository ''git://b'']\<rparr>"
proof -
  let ?ops = "succeeding (\<lambda>repo_url. if repo_url = ''git://b'' then Inl (ExternalError ''clone failed'') else Inr [])"
  let ?r0 = "\<lparr>world = (), records = [], calls = []\<rparr> :: unit run"
  have sa: "process_single_repository ?ops ''git://a''
        \<lparr>world = (), records = [Processing_repository ''git://a''],
          calls = [Call_process_single_repository ''git://a'']\<rparr> =
      (Inr (),
       \<lparr>world = (),
         records = [Processing_repository ''git://a'', Successfully_processed ''git://a''],
         calls = [Call_process_single_repository ''git://a'', Call_clone_repository ''git://a'',
                  Call_check_tracker_exists, Call_create_feature_branch ''feature/add-dbdemos-tracker'',
                  Call_add_tracker_to_repo, Call_commit_changes,
                  Call_push_branch ''feature/add-dbdemos-tracker'',
                  Call_create_pull_request ''git://a'' ''feature/add-dbdemos-tracker'']\<rparr>)"
    by code_simp
  have sb: "process_single_repository ?ops ''git://b''
        \<lparr>world = (),
          records = [Processing_repository ''git://a'', Successfully_processed ''git://a'',
                     Processing_repository ''git://b''],
          calls = [Call_process_single_repository ''git://a'', Call_clone_repository ''git://a'',
                  Call_check_tracker_exists, Call_create_feature_branch ''feature/add-dbdemos-tracker'',
                  Call_add_tracker_to_repo, Call_commit_changes,
                  Call_push_branch ''feature/add-dbdemos-tracker'',
                  Call_create_pull_request ''git://a'' ''feature/add-dbdemos-tracker'',
                  Call_process_single_repository ''git://b'']\<rparr> =
      (Inl (ExternalError ''clone failed''),
       \<lparr>world = (),
          records = [Processing_repository ''git://a'', Successfully_processed ''git://a'',
                     Processing_repository ''git://b'',
                     Error_processing ''git://b'' (ExternalError ''clone failed'')],
          calls = [Call_process_single_repository ''git://a'', Call_clone_repository ''git://a'',
                  Call_check_tracker_exists, Call_create_feature_branch ''feature/add-dbdemos-tracker'',
                  Call_add_tracker_to_repo, Call_commit_changes,
                  Call_push_branch ''feature/add-dbdemos-tracker'',
                  Call_create_pull_request ''git://a'' ''feature/add-dbdemos-tracker'',
                  Call_process_single_repository ''git://b'', Call_clone_repository ''git://b'']\<rparr>)"
    by code_simp
  have sc: "process_single_repository ?ops ''git://c''
        \<lparr>world = (),
          records = [Processing_repository ''git://a'', Successfully_processed ''git://a'',
                     Processing_repository ''git://b'',
                     Error_processing ''git://b'' (ExternalError ''clone failed''),
                     Failed_to_process ''git://b'' (ExternalError ''clone failed''),
                     Processing_repository ''git://c''],
          calls = [Call_process_single_repository ''git://a'', Call_clone_repository ''git://a'',
                  Call_check_tracker_exists, Call_create_feature_branch ''feature/add-dbdemos-tracker'',
                  Call_add_tracker_to_repo, Call_commit_changes,
                  Call_push_branch ''feature/add-dbdemos-tracker'',
                  Call_create_pull_request ''git://a'' ''feature/add-dbdemos-tracker'',
                  Call_process_single_repository ''git://b'', Call_clone_repository ''git://b'',
                  Call_process_single_repository ''git://c'']\<rparr> =
      (Inr (),
       \<lparr>world = (),
     records =
       [Processing_repository ''git://a'', Successfully_processed ''git://a'',
        Processing_repository ''git://b'',
        Error_processing ''git://b'' (ExternalError ''clone failed''),
        Failed_to_process ''git://b'' (ExternalError ''clone failed''),
        Processing_repository ''git://c'', Successfully_processed ''git://c''],
     calls =
       [Call_process_single_repository ''git://a'', Call_clone_repository ''git://a'',
        Call_check_tracker_exists, Call_create_feature_branch ''feature/add-dbdemos-tracker'',
        Call_add_tracker_to_repo, Call_commit_changes,
        Call_push_branch ''feature/add-dbdemos-tracker'',
        Call_create_pull_request ''git://a'' ''feature/add-dbdemos-tracker'',
        Call_process_single_repository ''git://b'', Call_clone_repository ''git://b'',
        Call_process_single_repository ''git://c'', Call_clone_repository ''git://c'',
        Call_check_tracker_exists, Call_create_feature_branch ''feature/add-dbdemos-tracker'',
        Call_add_tracker_to_repo, Call_commit_changes,
        Call_push_branch ''feature/add-dbdemos-tracker'',
        Call_create_pull_request ''git://c'' ''feature/add-dbdemos-tracker'']\<rparr>)"
    by code_simp
  have h1: "process_repositories ?ops [''git://a'', ''git://b'', ''git://c''] ?r0 =
   \<lparr>world = (),
     records =
       [Processing_repository ''git://a'', Successfully_processed ''git://a'',
        Processing_repository ''git://b'',
        Error_processing ''git://b'' (ExternalError ''clone failed''),
        Failed_to_process ''git://b'' (ExternalError ''clone failed''),
        Processing_repository ''git://c'', Successfully_processed ''git://c''],
     calls =
       [Call_process_single_repository ''git://a'', Call_clone_repository ''git://a'',
        Call_check_tracker_exists, Call_create_feature_branch ''feature/add-dbdemos-tracker'',
        Call_add_tracker_to_repo, Call_commit_changes,
        Call_push_branch ''feature/add-dbdemos-tracker'',
        Call_create_pull_request ''git://a'' ''feature/add-dbdemos-tracker'',
        Call_process_single_repository ''git://b'', Call_clone_repository ''git://b'',
        Call_process_single_repository ''git://c'', Call_clone_repository ''git://c'',
        Call_check_tracker_exists, Call_create_feature_branch ''feature/add-dbdemos-tracker'',
        Call_add_tracker_to_repo, Call_commit_changes,
        Call_push_branch ''feature/add-dbdemos-tracker'',
        Call_create_pull_request ''git://c'' ''feature/add-dbdemos-tracker'']\<rparr>"
    by (simp add: batch_step sa sb sc write_log_def del: process_repositories.simps(2))
  have h2: "process_single_repository ?ops ''git://b''
        (?r0\<lparr>records := records ?r0 @ [Processing_repository ''git://b''],
           calls := calls ?r0 @ [Call_process_single_repository ''git://b'']\<rparr>) =
      (Inl (ExternalError ''clone failed''),
       \<lparr>world = (),
         records = [Processing_repository ''git://b'',
                    Error_processing ''git://b'' (ExternalError ''clone failed'')],
         calls = [Call_process_single_repository ''git://b'', Call_clone_repository ''git://b'']\<rparr>)"
    by code_simp
  note t = batch_survives_repository_failure[of ?ops "[''git://a'', ''git://b'', ''git://c'']" ?r0]
  have a: "processed (calls (process_repositories ?ops [''git://a'', ''git://b'', ''git://c''] ?r0)) =
      [''git://a'', ''git://b'', ''git://c'']"
  proof -
    have "processed (calls ?r0) = []" by simp
    with t[THEN conjunct1] show ?thesis by (simp only: append_Nil)
  qed
  have b: "process_repositories ?ops [''git://b'', ''git://c''] ?r0 =
      process_repositories ?ops [''git://c'']
     \<lparr>world = (),
       records = [Processing_repository ''git://b'',
                  Error_processing ''git://b'' (ExternalError ''clone failed''),
                  Failed_to_process ''git://b'' (ExternalError ''clone failed'')],
       calls = [Call_process_single_repository ''git://b'', Call_clone_repository ''git://b'']\<rparr>"
  proof -
    have e: "\<lparr>world = (),
         records = [Processing_repository ''git://b'',
                    Error_processing ''git://b'' (ExternalError ''clone failed'')],
         calls = [Call_process_single_repository ''git://b'', Call_clone_repository ''git://b'']\<rparr>
        \<lparr>records := records \<lparr>world = (),
         records = [Processing_repository ''git://b'',
                    Error_processing ''git://b'' (ExternalError ''clone failed'')],
         calls = [Call_process_single_repository ''git://b'', Call_clone_repository ''git://b'']\<rparr> @
           [Failed_to_process ''git://b'' (ExternalError ''clone failed'')]\<rparr> =
       \<lparr>world = (),
       records = [Processing_repository ''git://b'',
                  Error_processing ''git://b'' (ExternalError ''clone failed''),
                  Failed_to_process ''git://b'' (ExternalError ''clone failed'')],
       calls = [Call_process_single_repository ''git://b'', Call_clone_repository ''git://b'']\<rparr>"
      by simp
    from t[THEN conjunct2, THEN conjunct2, rule_format, OF h2, of "[''git://c'']"]
    show ?thesis by (simp only: e)
  qed
  show ?thesis
    apply (intro conjI)
      apply (rule h1)
     apply (rule a)
    apply (rule b)
    done
qed

section \<open>The Detector's source scan\<close>

lemma not_isspace_d: "\<not> isspace CHR ''d''"
  by code_simp

lemma dropWhile_all: "\<forall>c\<in>set ws. P c \<Longrightarrow> dropWhile P (ws @ xs) = dropWhile P xs"
  by (induction ws) auto

lemma tracker_import_at_match:
  assumes "ws \<noteq> []" "\<forall>c\<in>set ws. isspace c"
  shows "tracker_import_at keyword (keyword @ ws @ ''dbdemos_tracker'' @ post)"
proof -
  from assms obtain c cs where ws: "ws = c # cs" and c: "isspace c"
    by (cases ws) auto
  have "takeWhile isspace (ws @ ''dbdemos_tracker'' @ post) \<noteq> []"
    using ws c by simp
  moreover have "dropWhile isspace (ws @ ''dbdemos_tracker'' @ post) = ''dbdemos_tracker'' @ post"
    using dropWhile_all[OF assms(2)] not_isspace_d by simp
  ultimately show ?thesis
    by (simp add: tracker_import_at_def)
qed

lemma search_tracker_import_here:
  "tracker_import_at ''from'' s \<or> tracker_import_at ''import'' s \<Longrightarrow> search_tracker_import s"
  by (cases s) (auto simp: tracker_import_at_def)

lemma search_tracker_import_later:
  "search_tracker_import s \<Longrightarrow> search_tracker_import (pre @ s)"
  by (induction pre) auto

lemma search_tracker_import_match:
  assumes "keyword = ''from'' \<or> keyword = ''import''" "ws \<noteq> []" "\<forall>c\<in>set ws. isspace c"
  shows "search_tracker_import (pre @ keyword @ ws @ ''dbdemos_tracker'' @ post)"
  using assms tracker_import_at_match[OF assms(2,3), of keyword post]
  by (intro search_tracker_import_later search_tracker_import_here) auto

lemma walk_reaches:
  "lookup es p = Some e \<Longrightarrow> is_file e \<Longrightarrow> \<forall>d\<in>set (butlast p). \<not> hidden d \<Longrightarrow>
   (root @ p, e) \<in> set (walk root (Dir n es))"
proof (induction p arbitrary: es root n)
  case Nil
  then show ?case by simp
next
  case (Cons m p)
  show ?case
  proof (cases "p = []")
    case True
    with Cons.prems have "e \<in> set es" "ename e = m"
      by (auto dest: find_entry_mem find_entry_ename)
    with Cons.prems(2) True show ?thesis by auto
  next
    case False
    with Cons.prems obtain d cs where d: "find_entry es m = Some (Dir d cs)" and l: "lookup cs p = Some e"
      by (auto simp: lookup_Cons split: option.splits entry.splits)
    from d have dm: "d = m" and mem: "Dir d cs \<in> set es"
      by (auto dest: find_entry_mem find_entry_ename)
    from Cons.prems(3) False have nh: "\<not> hidden m" and rest: "\<forall>d\<in>set (butlast p). \<not> hidden d"
      by auto
    from Cons.IH[OF l Cons.prems(2) rest, of "root @ [m]" m]
    have "((root @ [m]) @ p, e) \<in> set (walk (root @ [m]) (Dir m cs))" .
    then have "(root @ m # p, e) \<in> set (walk (root @ [ename (Dir m cs)]) (Dir m cs))"
      by simp
    moreover have "Dir m cs \<in> set (filter (\<lambda>d. \<not> hidden (ename d)) (filter is_dir es))"
      using mem dm nh by (simp add: is_dir_def)
    ultimately have "(root @ m # p, e) \<in>
        set (concat (map (\<lambda>d. walk (root @ [ename d]) d)
                       (filter (\<lambda>d. \<not> hidden (ename d)) (filter is_dir es))))"
      unfolding set_concat set_map by blast
    then show ?thesis
      by (subst walk.simps(2)) (simp del: walk.simps)
  qed
qed

lemma check_imports_loop_hit:
  "(file_path, e) \<in> set visits \<Longrightarrow> suffix ''.py'' (ename e) \<Longrightarrow> ftext e = Some content \<Longrightarrow>
   search_tracker_import content \<Longrightarrow> check_imports_loop visits"
  by (induction visits rule: check_imports_loop.induct) (auto split: option.splits)

text \<open>
  C9.  Let a file whose name ends in \<open>.py\<close> lie in the tree under directories none of which
  is hidden, and let its text hold, anywhere, \<open>from\<close> or \<open>import\<close>, then one or more
  whitespace characters, then \<open>dbdemos_tracker\<close>: a match of the pattern
  \<open>from\s+dbdemos_tracker|import\s+dbdemos_tracker\<close>.  Then \<open>check_tracker_imports\<close> is true, and
  so is \<open>check_tracker_exists\<close>.  What stands before the match and after it is free: a comment
  sign before it, the rest of a longer module name after it.
\<close>

theorem source_scan_finds_tracker_import:
  assumes "lookup es p = Some (File n (Some content) b w)"
    and "\<forall>d\<in>set (butlast p). \<not> hidden d"
    and "suffix ''.py'' n"
    and "content = pre @ keyword @ ws @ ''dbdemos_tracker'' @ post"
    and "keyword = ''from'' \<or> keyword = ''import''"
    and "ws \<noteq> []" "\<forall>c\<in>set ws. isspace c"
  shows "check_tracker_imports es \<and> check_tracker_exists es"
proof -
  have "(p, File n (Some content) b w) \<in> set (walk_repo es)"
    using walk_reaches[OF assms(1) _ assms(2), of "[]" "[]"] by (simp add: walk_repo_def is_file_def)
  moreover have "search_tracker_import content"
    unfolding assms(4) using assms(5-7) by (rule search_tracker_import_match)
  ultimately have "check_tracker_imports es"
    unfolding check_tracker_imports_def using assms(3)
    by (intro check_imports_loop_hit[where e = "File n (Some content) b w"]) auto
  then show ?thesis by (simp add: check_tracker_exists_def)
qed

text \<open>A comment that imports \<open>dbdemos_tracker_utils\<close>, in a package directory.\<close>

theorem source_scan_finds_tracker_import_witness:
  "check_tracker_imports
     [Dir ''.git'' [], Dir ''pkg'' [File ''util.py'' (Some ''# import dbdemos_tracker_utils'') 30 True]] \<and>
   check_tracker_exists
     [Dir ''.git'' [], Dir ''pkg'' [File ''util.py'' (Some ''# import dbdemos_tracker_utils'') 30 True]]"
proof -
  let ?es = "[Dir ''.git'' [], Dir ''pkg'' [File ''util.py'' (Some ''# import dbdemos_tracker_utils'') 30 True]]"
  have h1: "lookup ?es [''pkg'', ''util.py''] =
      Some (File ''util.py'' (Some ''# import dbdemos_tracker_utils'') 30 True)"
    by (simp add: find_entry_def)
  have h2: "\<forall>d\<in>set (butlast [''pkg'', ''util.py'']). \<not> hidden d"
    by (simp add: hidden_def)
  have h3: "suffix ''.py'' ''util.py''"
    by code_simp
  have h4: "''# import dbdemos_tracker_utils'' = ''# '' @ ''import'' @ '' '' @ ''dbdemos_tracker'' @ ''_utils''"
    by simp
  have h5: "''import'' = ''from'' \<or> ''import'' = ''import''"
    by simp
  have h6: "'' '' \<noteq> []" "\<forall>c\<in>set '' ''. isspace c"
    by code_simp+
  show ?thesis
    by (rule source_scan_finds_tracker_import[OF h1 h2 h3 h4 h5 h6])
qed

section \<open>The call under the main guard\<close>

text \<open>
  C7 as stated fails.  The function takes for the guard the first line that contains
  \<open>__name__\<close> and \<open>__main__\<close>, whatever the line is.  Here that line is a comment at the top of the file;
  the line after it is not indented, so nothing is inserted under it, and the guard itself is
  never looked at: the call is appended at the end of the file, not put before the statement
  under the guard.  The function still returns \<open>True\<close>.
\<close>

theorem main_guard_insertion_counterexample: "add_tracker_init_to_file
     [File ''main.py''
        (Some (join_nl [''# __name__ is __main__ when this file is run'', ''import sys'', MAIN_GUARD,
                        ''    sys.exit(0)'']))
        98 True] [''main.py''] =
     ([File ''main.py''
         (Some (join_nl [''# __name__ is __main__ when this file is run'', ''import sys'',
                         ''import dbdemos_tracker'', MAIN_GUARD, ''    sys.exit(0)'', [],
                         ''# Initialize dbdemos tracker'', ''dbdemos_tracker.initialize()'']))
         180 True], True) \<and>
   \<not> right_before ''    dbdemos_tracker.initialize()'' ''    sys.exit(0)''
       [''# __name__ is __main__ when this file is run'', ''import sys'',
        ''import dbdemos_tracker'', MAIN_GUARD, ''    sys.exit(0)'', [],
        ''# Initialize dbdemos tracker'', ''dbdemos_tracker.initialize()'']"
  by code_simp

lemma import_line_idx_append:
  "import_line_idx i idx (xs @ ys) = import_line_idx (i + length xs) (import_line_idx i idx xs) ys"
  by (induction xs arbitrary: i idx) auto

lemma import_line_idx_none:
  "\<forall>l\<in>set xs. \<not> import_like l \<Longrightarrow> import_line_idx i idx xs = idx"
  by (induction xs arbitrary: i) auto

lemma import_line_idx_range:
  "import_line_idx i idx xs = idx \<or>
   (i < import_line_idx i idx xs \<and> import_line_idx i idx xs \<le> i + length xs)"
proof (induction xs arbitrary: i idx)
  case Nil
  then show ?case by simp
next
  case (Cons l xs)
  show ?case
  proof (cases "import_like l")
    case True
    with Cons.IH[of "i + 1" "i + 1"] show ?thesis by auto
  next
    case False
    with Cons.IH[of "i + 1" idx] show ?thesis by auto
  qed
qed

lemma insert_at_append:
  "insert_at k x (xs @ ys) =
     (if k \<le> length xs then insert_at k x xs @ ys else xs @ insert_at (k - length xs) x ys)"
  by (simp add: insert_at_def)

lemma insert_at_append_right:
  "length xs \<le> k \<Longrightarrow> insert_at k x (xs @ ys) = xs @ insert_at (k - length xs) x ys"
  by (simp add: insert_at_def)

lemma first_index_append:
  "\<forall>x\<in>set xs. \<not> P x \<Longrightarrow> P y \<Longrightarrow> first_index P (xs @ y # ys) = Some (length xs)"
  by (induction xs) auto

lemma main_block_scan_hit:
  assumes "\<forall>l\<in>set blanks. strip l = [] \<or> ((prefix '' '' l \<or> prefix [TAB] l) \<and> prefix ''#'' (strip l))"
    and "prefix '' '' statement \<or> prefix [TAB] statement"
    and "strip statement \<noteq> []" "\<not> prefix ''#'' (strip statement)"
  shows "main_block_scan j (blanks @ statement # rest) = Some (j + length blanks)"
  using assms by (induction blanks arbitrary: j) auto


lemma not_mentions_import: "\<not> mentions_main IMPORT_LINE"
  by code_simp

lemma set_insert_at_ball: "\<forall>x\<in>set xs. P x \<Longrightarrow> P y \<Longrightarrow> \<forall>x\<in>set (insert_at k y xs). P x"
  by (simp add: set_insert_at)

text \<open>Where the import line goes when the guard and the lines under it are no imports.\<close>

lemma import_insertion_shape:
  assumes "\<not> import_like guard"
    and "\<forall>l\<in>set blanks. \<not> import_like l"
  shows "\<exists>k. insert_at (import_line_idx 0 0 (before @ guard # blanks @ statement # rest)) IMPORT_LINE
              (before @ guard # blanks @ statement # rest) =
            insert_at k IMPORT_LINE before @ guard # blanks @ statement # rest \<or>
            insert_at (import_line_idx 0 0 (before @ guard # blanks @ statement # rest)) IMPORT_LINE
              (before @ guard # blanks @ statement # rest) =
            before @ guard # blanks @ statement # insert_at k IMPORT_LINE rest"
proof -
  let ?mid = "guard # blanks"
  let ?v = "import_line_idx 0 0 before"
  let ?i = "length before + length ?mid"
  let ?idx = "import_line_idx 0 0 (before @ ?mid @ statement # rest)"
  have v: "?v \<le> length before"
    using import_line_idx_range[of 0 0 before] by auto
  have "import_line_idx (length before) ?v ?mid = ?v"
    using assms by (intro import_line_idx_none) auto
  then have idx: "?idx = import_line_idx ?i ?v (statement # rest)"
    by (simp add: import_line_idx_append)
  from import_line_idx_range[of ?i ?v "statement # rest"] idx
  consider "?idx = ?v" | "?i < ?idx"
    by auto
  then show ?thesis
  proof cases
    case 1
    with v have "insert_at ?idx IMPORT_LINE (before @ ?mid @ statement # rest) =
        insert_at ?v IMPORT_LINE before @ ?mid @ statement # rest"
      by (simp add: insert_at_append)
    then show ?thesis by auto
  next
    case 2
    then have "insert_at ?idx IMPORT_LINE ((before @ ?mid @ [statement]) @ rest) =
        (before @ ?mid @ [statement]) @ insert_at (?idx - length (before @ ?mid @ [statement])) IMPORT_LINE rest"
      by (intro insert_at_append_right) simp
    then show ?thesis by auto
  qed
qed

text \<open>The call goes in before the first line of substance under the first line that mentions
  \<open>__name__\<close> and \<open>__main__\<close>.\<close>

lemma init_in_main_block_hit:
  assumes "\<forall>l\<in>set before. \<not> mentions_main l" "mentions_main guard"
    and "\<forall>l\<in>set blanks. strip l = [] \<or> ((prefix '' '' l \<or> prefix [TAB] l) \<and> prefix ''#'' (strip l))"
    and "prefix '' '' statement \<or> prefix [TAB] statement"
    and "strip statement \<noteq> []" "\<not> prefix ''#'' (strip statement)"
  shows "init_in_main_block (before @ guard # blanks @ statement # rest) =
         Some (before @ guard # blanks @ (''    '' @ INIT_CALL) # statement # rest)"
proof -
  have f: "first_index mentions_main (before @ guard # blanks @ statement # rest) = Some (length before)"
    using assms(1,2) by (rule first_index_append)
  have d: "drop (length before + 1) (before @ guard # blanks @ statement # rest) = blanks @ statement # rest"
    by simp
  have s: "main_block_scan (length before + 1) (blanks @ statement # rest) =
      Some (length before + 1 + length blanks)"
    using assms(3-6) by (rule main_block_scan_hit)
  have i: "insert_at (length before + 1 + length blanks) (''    '' @ INIT_CALL)
       ((before @ guard # blanks) @ statement # rest) =
       (before @ guard # blanks) @ (''    '' @ INIT_CALL) # statement # rest"
    by (subst insert_at_append) (simp add: insert_at_def)
  show ?thesis
    unfolding init_in_main_block_def f option.case d s using i by simp
qed


lemma comment_not_import: "strip l = [] \<or> prefix ''#'' (strip l) \<Longrightarrow> \<not> import_like l"
  by (cases "strip l") (auto simp: import_like_def)

text \<open>
  C7, amended.  Let the file have no tracker import, and let the first of its lines that
  contains \<open>__name__\<close> and \<open>__main__\<close> be the guard line, not itself an import, followed by
  blank lines and indented comment lines only (or none) and then by an indented line that is
  neither blank nor a comment.  Then \<open>add_tracker_init_to_file\<close> returns \<open>True\<close>, and in the
  text it writes the call, indented with four spaces, is a new line right before that
  statement: the guard, the blank and comment lines, the call and the statement follow each
  other.  The only other change is the import line, inserted before the guard or after the
  statement.
\<close>

theorem main_guard_insertion:
  assumes "lookup es p = Some (File n (Some content) b True)"
    and "\<not> sublist ''import dbdemos_tracker'' content" "\<not> sublist ''from dbdemos_tracker'' content"
    and "split_nl content = before @ guard # blanks @ statement # rest"
    and "\<forall>l\<in>set before. \<not> mentions_main l"
    and "mentions_main guard" "\<not> import_like guard"
    and "\<forall>l\<in>set blanks. strip l = [] \<or> ((prefix '' '' l \<or> prefix [TAB] l) \<and> prefix ''#'' (strip l))"
    and "prefix '' '' statement \<or> prefix [TAB] statement"
    and "strip statement \<noteq> []" "\<not> prefix ''#'' (strip statement)"
  shows "\<exists>es' before' rest'.
     add_tracker_init_to_file es p = (es', True) \<and>
     read_text es' p =
       Inr (join_nl (before' @ guard # blanks @ (''    '' @ INIT_CALL) # statement # rest')) \<and>
     (\<exists>k. before' = insert_at k IMPORT_LINE before \<and> rest' = rest \<or>
          before' = before \<and> rest' = insert_at k IMPORT_LINE rest)"
proof -
  have nb: "\<forall>l\<in>set blanks. \<not> import_like l"
    using assms(8) comment_not_import by blast
  from import_insertion_shape[OF assms(7) nb, of before statement rest]
  obtain k before' rest' where
    shape: "insert_at (import_line_idx 0 0 (split_nl content)) IMPORT_LINE (split_nl content) =
        before' @ guard # blanks @ statement # rest'"
    and k: "before' = insert_at k IMPORT_LINE before \<and> rest' = rest \<or>
        before' = before \<and> rest' = insert_at k IMPORT_LINE rest"
    unfolding assms(4) by blast
  have nm: "\<forall>l\<in>set before'. \<not> mentions_main l"
    using k assms(5) not_mentions_import by (auto simp: set_insert_at)
  have patched: "patch_lines (split_nl content) =
      before' @ guard # blanks @ (''    '' @ INIT_CALL) # statement # rest'"
    unfolding patch_lines_def Let_def shape
    using init_in_main_block_hit[OF nm assms(6) assms(8-11), of rest'] by simp
  let ?new = "join_nl (before' @ guard # blanks @ (''    '' @ INIT_CALL) # statement # rest')"
  let ?es' = "store es p (File n (Some ?new) (utf8_len ?new) True)"
  have r: "read_text es p = Inr content"
    using assms(1) by (simp add: read_text_def)
  have w: "write_text es p ?new = Inr ?es'"
    using assms(1) by (simp add: write_text_def)
  have "add_tracker_init_to_file es p = (?es', True)"
    using r w assms(2,3) patched by (simp add: add_tracker_init_to_file_def add_tracker_init_try_def)
  moreover have "read_text ?es' p = Inr ?new"
    using read_after_write[OF w] assms(1) by simp
  ultimately show ?thesis using k by blast
qed

text \<open>A file with an import, a function and the guard with one statement.\<close>

theorem main_guard_insertion_witness:
  "add_tracker_init_to_file
     [File ''main.py''
        (Some (join_nl [''import sys'', [], ''def run():'', ''    pass'', [], MAIN_GUARD, ''    run()'', []]))
        70 True] [''main.py''] =
     ([File ''main.py''
         (Some (join_nl [''import sys'', ''import dbdemos_tracker'', [], ''def run():'', ''    pass'', [],
                         MAIN_GUARD, ''    dbdemos_tracker.initialize()'', ''    run()'', []]))
         126 True], True) \<and>
   (\<exists>es' before' rest'.
     add_tracker_init_to_file
       [File ''main.py''
          (Some (join_nl [''import sys'', [], ''def run():'', ''    pass'', [], MAIN_GUARD, ''    run()'', []]))
          70 True] [''main.py''] = (es', True) \<and>
     read_text es' [''main.py''] =
       Inr (join_nl (before' @ MAIN_GUARD # [] @ (''    '' @ INIT_CALL) # ''    run()'' # rest')) \<and>
     (\<exists>k. before' = insert_at k IMPORT_LINE [''import sys'', [], ''def run():'', ''    pass'', []] \<and>
            rest' = [[]] \<or>
          before' = [''import sys'', [], ''def run():'', ''    pass'', []] \<and>
            rest' = insert_at k IMPORT_LINE [[]]))"
proof -
  let ?content = "join_nl [''import sys'', [], ''def run():'', ''    pass'', [], MAIN_GUARD, ''    run()'', []]"
  let ?es = "[File ''main.py'' (Some ?content) 70 True]"
  have h1: "lookup ?es [''main.py''] = Some (File ''main.py'' (Some ?content) 70 True)"
    by (simp add: find_entry_def)
  have h2: "\<not> sublist ''import dbdemos_tracker'' ?content" "\<not> sublist ''from dbdemos_tracker'' ?content"
    by code_simp+
  have h3: "split_nl ?content =
      [''import sys'', [], ''def run():'', ''    pass'', []] @ MAIN_GUARD # [] @ ''    run()'' # [[]]"
    by code_simp
  have h4: "\<forall>l\<in>set [''import sys'', [], ''def run():'', ''    pass'', []]. \<not> mentions_main l"
    by code_simp
  have h5: "mentions_main MAIN_GUARD" "\<not> import_like MAIN_GUARD"
    by code_simp+
  have h6: "\<forall>l\<in>set []. strip l = [] \<or> ((prefix '' '' l \<or> prefix [TAB] l) \<and> prefix ''#'' (strip l))"
    by simp
  have h7: "prefix '' '' ''    run()'' \<or> prefix [TAB] ''    run()''"
    by simp
  have h8: "strip ''    run()'' \<noteq> []" "\<not> prefix ''#'' (strip ''    run()'')"
    by code_simp+
  have e: "add_tracker_init_to_file ?es [''main.py''] =
     ([File ''main.py''
         (Some (join_nl [''import sys'', ''import dbdemos_tracker'', [], ''def run():'', ''    pass'', [],
                         MAIN_GUARD, ''    dbdemos_tracker.initialize()'', ''    run()'', []]))
         126 True], True)"
    by code_simp
  show ?thesis
    apply (rule conjI)
     apply (rule e)
    apply (rule main_guard_insertion[OF h1 h2 h3 h4 h5 h6 h7 h8])
    done
qed

section \<open>Further facts about the Dependency Patcher\<close>

lemma split_nl_nonempty: "split_nl s \<noteq> []"
  by (induction s) (auto split: list.splits)

lemma join_split_nl: "join_nl (split_nl s) = s"
proof (induction s)
  case Nil
  then show ?case by simp
next
  case (Cons c s)
  obtain l ls where sp: "split_nl s = l # ls"
    using split_nl_nonempty[of s] by (cases "split_nl s") auto
  with Cons show ?case
    by (cases ls) auto
qed

lemma line_in_text: "l \<in> set (split_nl s) \<Longrightarrow> sublist l s"
  using sublist_join_nl[of l "split_nl s"] by (simp add: join_split_nl)

lemma sublist_strip: "sublist (strip l) l"
proof -
  have "suffix (dropWhile isspace (rev (dropWhile isspace (rev l)))) (rev (dropWhile isspace (rev l)))"
    by (rule suffix_dropWhile)
  moreover have "prefix (rev (dropWhile isspace (rev l))) l"
    using suffix_dropWhile[of isspace "rev l"] by (simp add: suffix_to_prefix)
  ultimately show ?thesis
    unfolding strip_def lstrip_def rstrip_def sublist_altdef by blast
qed

lemma insert_after_header_hit:
  "\<forall>l\<in>set before. strip l \<noteq> header \<Longrightarrow> strip line = header \<Longrightarrow>
   insert_after_header header (before @ line # rest) = before @ line # DEP_ENTRY # rest"
  by (induction before) auto

lemma insert_after_header_miss:
  "\<forall>l\<in>set lines. strip l \<noteq> header \<Longrightarrow> insert_after_header header lines = lines"
  by (induction lines) auto

text \<open>What \<open>add_to_pyproject\<close> does when a line of the file is the header.\<close>

lemma add_to_pyproject_header_line:
  assumes "lookup es p = Some (File n (Some content) b True)"
    and "\<not> sublist DEP content"
    and "split_nl content = before @ line # rest"
    and "\<forall>l\<in>set before. strip l \<noteq> ''[tool.poetry.dependencies]''"
    and "strip line = ''[tool.poetry.dependencies]''"
  shows "\<exists>es'. add_to_pyproject es p = Inr (es', True) \<and>
           read_text es' p = Inr (join_nl (before @ line # DEP_ENTRY # rest))"
proof -
  have "line \<in> set (split_nl content)" using assms(3) by simp
  then have "sublist line content" by (rule line_in_text)
  with sublist_strip[of line] assms(5) have h: "sublist ''[tool.poetry.dependencies]'' content"
    by (metis sublist_order.order_trans)
  let ?new = "join_nl (before @ line # DEP_ENTRY # rest)"
  have r: "read_text es p = Inr content" using assms(1) by (simp add: read_text_def)
  have w: "write_text es p ?new = Inr (store es p (File n (Some ?new) (utf8_len ?new) True))"
    using assms(1) by (simp add: write_text_def)
  have "add_to_pyproject es p = Inr (store es p (File n (Some ?new) (utf8_len ?new) True), True)"
    unfolding add_to_pyproject_def add_under_header_def
    using r w h assms(2) insert_after_header_hit[OF assms(4,5), of rest] assms(3) by simp
  moreover have "read_text (store es p (File n (Some ?new) (utf8_len ?new) True)) p = Inr ?new"
    using read_after_write[OF w] assms(1) by simp
  ultimately show ?thesis by blast
qed

text \<open>What it does when the header is nowhere in the file, and when it is already there.\<close>

lemma add_to_pyproject_no_header:
  "read_text es p = Inr content \<Longrightarrow> \<not> sublist ''[tool.poetry.dependencies]'' content \<Longrightarrow>
   add_to_pyproject es p = Inr (es, False)"
  by (simp add: add_to_pyproject_def add_under_header_def)

text \<open>And when the header is in the file but no line is the header: the text written is the
  text read, and the result is \<open>True\<close>.\<close>

lemma add_to_pyproject_header_inside_line:
  assumes "lookup es p = Some (File n (Some content) b True)"
    and "\<not> sublist DEP content"
    and "sublist ''[tool.poetry.dependencies]'' content"
    and "\<forall>l\<in>set (split_nl content). strip l \<noteq> ''[tool.poetry.dependencies]''"
  shows "add_to_pyproject es p = Inr (store es p (File n (Some content) (utf8_len content) True), True)"
proof -
  have r: "read_text es p = Inr content" using assms(1) by (simp add: read_text_def)
  show ?thesis
    unfolding add_to_pyproject_def add_under_header_def
    using r assms by (simp add: insert_after_header_miss join_split_nl write_text_def)
qed

text \<open>\<open>add_to_requirements\<close>: a file that names the dependency is left alone; a file that is
  empty or ends with a newline gets the name as a line of its own.\<close>

lemma add_to_requirements_present:
  "read_text es p = Inr content \<Longrightarrow> sublist DEP content \<Longrightarrow>
   add_to_requirements es p = Inr (es, False)"
  by (simp add: add_to_requirements_def)

lemma split_nl_append_line:
  "NL \<notin> set l \<Longrightarrow> split_nl (s @ NL # l) = split_nl s @ [l]"
proof (induction s)
  case Nil
  have "split_nl l = [l]" using Nil
    by (induction l) (auto split: list.splits)
  then show ?case by simp
next
  case (Cons c s)
  then show ?case
    using split_nl_nonempty[of s] by (cases "split_nl s") (auto split: list.splits)
qed

lemma add_to_requirements_terminated:
  assumes "lookup es p = Some (File n (Some content) b True)"
    and "\<not> sublist DEP content"
    and "content = [] \<or> (\<exists>c. content = c @ [NL])"
  shows "\<exists>es'. add_to_requirements es p = Inr (es', True) \<and>
           read_text es' p = Inr (content @ DEP @ [NL]) \<and>
           DEP \<in> set (split_nl (content @ DEP @ [NL]))"
proof -
  have r: "read_text es p = Inr content" using assms(1) by (simp add: read_text_def)
  let ?e = "File n (Some (content @ DEP @ [NL])) (b + utf8_len (DEP @ [NL])) True"
  have a: "append_text es p (DEP @ [NL]) = Inr (store es p ?e)"
    using assms(1) by (simp add: append_text_def)
  have "ename ?e = last p" using lookup_ename[OF assms(1)] by simp
  from lookup_store_same[OF assms(1) this] have rd: "read_text (store es p ?e) p = Inr (content @ DEP @ [NL])"
    by (simp add: read_text_def)
  have nl: "NL \<notin> set DEP" by code_simp
  have "DEP \<in> set (split_nl (content @ DEP @ [NL]))"
  proof (cases "content = []")
    case True
    have "split_nl (DEP @ NL # []) = split_nl DEP @ [[]]"
      by (rule split_nl_append_line) simp
    moreover have "split_nl DEP = [DEP]" by code_simp
    ultimately show ?thesis using True by simp
  next
    case False
    with assms(3) obtain c where c: "content = c @ [NL]" by auto
    have "split_nl ((c @ NL # DEP) @ NL # []) = split_nl (c @ NL # DEP) @ [[]]"
      by (rule split_nl_append_line) simp
    moreover have "split_nl (c @ NL # DEP) = split_nl c @ [DEP]"
      using nl by (rule split_nl_append_line)
    ultimately show ?thesis using c by simp
  qed
  with r a rd assms(2) show ?thesis
    by (auto simp: add_to_requirements_def)
qed

text \<open>A second run of \<open>add_dependency\<close> reports no change once the manifest it targets names
  the dependency.\<close>

lemma add_dependency_settled:
  assumes "find (\<lambda>f. exists es [f]) [''requirements.txt'', ''pyproject.toml'', ''setup.py'', ''Pipfile''] = Some f"
    and "read_text es [f] = Inr content" "sublist DEP content"
  shows "add_dependency es = Inr (es, False)"
  using assms
  by (auto simp: add_dependency_def dependency_targets_def add_to_requirements_def
      add_to_pyproject_def add_to_pipfile_def add_under_header_def add_to_setup_py_def
      split: if_splits)

end
